theory Spec2Isabelle
  imports Main
begin

section \<open>Configuration and collaborator types\<close>

text \<open>
  The model follows \<^verbatim>\<open>src/mocap_node.cpp\<close>: the class \<^verbatim>\<open>OptiTrackRosBridge\<close> with its
  methods \<^verbatim>\<open>reconfigureCallback\<close>, \<^verbatim>\<open>initialize\<close>, \<^verbatim>\<open>run\<close> and
  \<^verbatim>\<open>updateDataModelFromServer\<close>. The fields of the class are a record, every effect on
  the outside (socket construction and destruction, send, receive, pause, publish) is an
  event appended to a trace, and everything the outside decides (\<^verbatim>\<open>ros::ok()\<close>, what
  \<^verbatim>\<open>recv()\<close> yields, which reconfiguration requests \<^verbatim>\<open>ros::spinOnce()\<close> delivers) is
  read from three input streams. The program has one thread: a reconfiguration request
  is served when the program calls \<^verbatim>\<open>ros::spinOnce()\<close>, which then runs
  \<^verbatim>\<open>reconfigureCallback\<close> to its end. The constructor and \<^verbatim>\<open>main\<close> are not part of
  the model: the methods are studied from any state of the bridge.
\<close>

type_synonym Version = "int list"

text \<open>\<^verbatim>\<open>ServerDescription\<close> with the five fields the source reads or writes.\<close>

record ServerDescription =
  enableOptitrack :: bool
  commandPort :: int
  dataPort :: int
  multicastIpAddress :: string
  version :: Version

text \<open>\<^verbatim>\<open>MocapOptitrackConfig\<close>: the four fields \<^verbatim>\<open>reconfigureCallback\<close> reads.\<close>

record MocapOptitrackConfig =
  enable_optitrack :: bool
  command_port :: int
  data_port :: int
  multicast_address :: string

text \<open>
  Modelled from the spec: a rigid body (\<^verbatim>\<open>data_model.h\<close> is not among the sources) is
  an identifier plus a pose; the pose's numbers are kept abstract as a list of integers.
\<close>

record RigidBody =
  bodyId :: int
  pose :: "int list"

text \<open>
  Modelled from the spec: the publisher configurations (\<^verbatim>\<open>mocap_config.h\<close> is not among
  the sources) say which rigid body goes to which consumer.
\<close>

type_synonym PublisherConfigurations = "(int \<times> string) list"

text \<open>
  Modelled from the spec: the data model (\<^verbatim>\<open>data_model.h\<close> is not among the sources)
  holds the server's versions once known and the rigid bodies of the latest frame
  (\<^verbatim>\<open>dataModel.dataFrame.rigidBodies\<close>). \<^verbatim>\<open>clear()\<close> empties the rigid bodies and
  never touches the server info; \<^verbatim>\<open>hasServerInfo()\<close> is true once a server-info message
  has been decoded or a version hint applied; the current version is defined only when
  \<^verbatim>\<open>hasServerInfo()\<close> is true.
\<close>

record DataModel =
  serverInfo :: "(Version \<times> Version) option"
  rigidBodies :: "RigidBody list"

definition hasServerInfo :: "DataModel \<Rightarrow> bool" where
  "hasServerInfo dm = (serverInfo dm \<noteq> None)"

definition setVersions :: "Version \<Rightarrow> Version \<Rightarrow> DataModel \<Rightarrow> DataModel" where
  "setVersions nver sver dm = dm\<lparr>serverInfo := Some (nver, sver)\<rparr>"

definition getNatNetVersion :: "DataModel \<Rightarrow> Version option" where
  "getNatNetVersion dm = map_option fst (serverInfo dm)"

definition clear :: "DataModel \<Rightarrow> DataModel" where
  "clear dm = dm\<lparr>rigidBodies := []\<rparr>"

text \<open>\<^verbatim>\<open>natnet::MessageBuffer\<close> is a \<^verbatim>\<open>std::vector<char>\<close>.\<close>

type_synonym MessageBuffer = "char list"

text \<open>
  \<^verbatim>\<open>natnet::MessageDispatcher::dispatch\<close> is not among the sources: the functions below
  take it as the parameter \<open>dispatch\<close>, a function from the received buffer and the data
  model to the updated data model.
\<close>

type_synonym Dispatch = "MessageBuffer \<Rightarrow> DataModel \<Rightarrow> DataModel"

text \<open>
  Modelled from the spec: the transport (\<^verbatim>\<open>socket.h\<close> is not among the sources) is a
  UDP multicast endpoint bound to a data port and a multicast group. A
  \<^verbatim>\<open>UdpMulticastSocket\<close> object is the two arguments the source passes to its
  constructor, and an identity (the n-th socket constructed), so that two sockets bound
  to the same port and group are still two objects. Constructing the object binds the
  socket, destroying it closes the socket.
\<close>

record UdpMulticastSocket =
  socketId :: nat
  localPort :: int
  multicastGroup :: string

text \<open>
  Modelled from the spec: the frame dispatcher (\<^verbatim>\<open>rigid_body_publisher.h\<close> is not
  among the sources) is constructed from the protocol version and the publisher
  configurations. A \<^verbatim>\<open>RigidBodyPublishDispatcher\<close> object is the two values the source
  passes to its constructor; the version is \<open>None\<close> when the data model it was read
  from had no server info.
\<close>

record RigidBodyPublishDispatcher =
  natNetVersion :: "Version option"
  configurations :: PublisherConfigurations

section \<open>The outside world\<close>

text \<open>
  The effects, in the order the program performs them. \<open>Sleep\<close> carries the requested
  pause in microseconds: \<^verbatim>\<open>usleep(n)\<close> is \<open>Sleep n\<close>, \<^verbatim>\<open>sleep(1)\<close> and
  \<^verbatim>\<open>ros::Duration(1.).sleep()\<close> are \<open>Sleep 1000000\<close>. \<open>Publish\<close> carries the rigid
  bodies handed to the dispatcher (the time stamp, \<^verbatim>\<open>ros::Time::now()\<close>, is left out).
\<close>

datatype event =
    SocketOpen nat int string
  | SocketClose nat
  | Send nat int
  | Recv nat int
  | Decode MessageBuffer
  | Sleep nat
  | OkCheck bool
  | SpinOnce
  | DispatcherCreate "Version option"
  | Publish "RigidBody list"

text \<open>
  The inputs: the n-th answer of \<^verbatim>\<open>ros::ok()\<close>, the n-th result of \<^verbatim>\<open>recv()\<close> (the
  returned number of bytes and the socket's buffer afterwards), and the reconfiguration
  requests that the n-th \<^verbatim>\<open>ros::spinOnce()\<close> finds in the callback queue.
\<close>

record Env =
  okStream :: "nat \<Rightarrow> bool"
  recvStream :: "nat \<Rightarrow> int \<times> MessageBuffer"
  spinStream :: "nat \<Rightarrow> MocapOptitrackConfig list"

record World =
  okIdx :: nat
  recvIdx :: nat
  spinIdx :: nat
  nextSocketId :: nat
  trace :: "event list"

definition emit :: "event \<Rightarrow> World \<Rightarrow> World" where
  "emit e w = w\<lparr>trace := trace w @ [e]\<rparr>"

definition ros_ok :: "Env \<Rightarrow> World \<Rightarrow> bool \<times> World" where
  "ros_ok env w =
     (okStream env (okIdx w),
      emit (OkCheck (okStream env (okIdx w))) (w\<lparr>okIdx := Suc (okIdx w)\<rparr>))"

text \<open>
  What the next \<^verbatim>\<open>recv()\<close> returns (\<^verbatim>\<open>numBytesReceived\<close>) and the buffer
  \<^verbatim>\<open>updateDataModelFromServer\<close> then builds from it (\<^verbatim>\<open>msgBuffer\<close>).
\<close>

definition numBytes :: "Env \<Rightarrow> World \<Rightarrow> int" where
  "numBytes env w = fst (recvStream env (recvIdx w))"

definition received :: "Env \<Rightarrow> World \<Rightarrow> MessageBuffer" where
  "received env w = take (nat (fst (recvStream env (recvIdx w)))) (snd (recvStream env (recvIdx w)))"

section \<open>The bridge\<close>

text \<open>
  The fields of \<^verbatim>\<open>OptiTrackRosBridge\<close> (the node handle and the reconfigure server
  carry no state the methods read). A \<^verbatim>\<open>std::unique_ptr\<close> is an option: \<open>None\<close> is the
  null pointer.
\<close>

record OptiTrackRosBridge =
  serverDescription :: ServerDescription
  publisherConfigurations :: PublisherConfigurations
  dataModel :: DataModel
  multicastClientSocketPtr :: "UdpMulticastSocket option"
  publishDispatcherPtr :: "RigidBodyPublishDispatcher option"
  initialized :: bool

type_synonym sys = "OptiTrackRosBridge \<times> World"

text \<open>
  How a call ends: it returns a value, or the model's fuel is used up while a loop is
  still running, or the call dereferences a null \<^verbatim>\<open>unique_ptr\<close> (undefined behaviour in
  C++, a result of its own here). Every result comes with the state reached.
\<close>

datatype 'a outcome = Returns 'a | OutOfFuel | NullDeref

text \<open>
  \<^verbatim>\<open>multicastClientSocketPtr.reset(new UdpMulticastSocket(dataPort, multicastIpAddress))\<close>:
  the \<^verbatim>\<open>new\<close> expression is the argument of \<^verbatim>\<open>reset\<close>, so the new socket is
  constructed first; \<^verbatim>\<open>reset\<close> then stores it and destroys the socket held before.
\<close>

definition resetSocket :: "sys \<Rightarrow> sys" where
  "resetSocket s =
     (case s of (b, w) \<Rightarrow>
        let sock = \<lparr>socketId = nextSocketId w,
                    localPort = dataPort (serverDescription b),
                    multicastGroup = multicastIpAddress (serverDescription b)\<rparr>;
            w1 = emit (SocketOpen (socketId sock) (localPort sock) (multicastGroup sock))
                      (w\<lparr>nextSocketId := Suc (nextSocketId w)\<rparr>);
            w2 = (case multicastClientSocketPtr b of
                    None \<Rightarrow> w1
                  | Some old \<Rightarrow> emit (SocketClose (socketId old)) w1)
        in (b\<lparr>multicastClientSocketPtr := Some sock\<rparr>, w2))"

text \<open>
  \<^verbatim>\<open>publishDispatcherPtr.reset(new RigidBodyPublishDispatcher(nh,
  dataModel.getNatNetVersion(), publisherConfigurations))\<close>.
\<close>

definition resetDispatcher :: "sys \<Rightarrow> sys" where
  "resetDispatcher s =
     (case s of (b, w) \<Rightarrow>
        (b\<lparr>publishDispatcherPtr :=
              Some \<lparr>natNetVersion = getNatNetVersion (dataModel b),
                    configurations = publisherConfigurations b\<rparr>\<rparr>,
         emit (DispatcherCreate (getNatNetVersion (dataModel b))) w))"

text \<open>\<^verbatim>\<open>updateDataModelFromServer\<close>, lines 144 to 161.\<close>

definition updateDataModelFromServer :: "Dispatch \<Rightarrow> Env \<Rightarrow> sys \<Rightarrow> bool outcome \<times> sys" where
  "updateDataModelFromServer dispatch env s =
     (case s of (b, w) \<Rightarrow>
        (case multicastClientSocketPtr b of
           None \<Rightarrow> (NullDeref, (b, w))
         | Some sock \<Rightarrow>
             let numBytesReceived = fst (recvStream env (recvIdx w));
                 w1 = emit (Recv (socketId sock) numBytesReceived) (w\<lparr>recvIdx := Suc (recvIdx w)\<rparr>)
             in if numBytesReceived > 0 then
                  let pMsgBuffer = snd (recvStream env (recvIdx w));
                      msgBuffer = take (nat numBytesReceived) pMsgBuffer
                  in (Returns True,
                      (b\<lparr>dataModel := dispatch msgBuffer (dataModel b)\<rparr>,
                       emit (Decode msgBuffer) w1))
                else (Returns False, (b, w1))))"

text \<open>
  The body of the handshake loop up to the pause, lines 89 to 97: serialise and send the
  connection request to the command port, poll the socket once, then \<^verbatim>\<open>usleep(10)\<close> if
  the poll returned true and \<^verbatim>\<open>sleep(1)\<close> otherwise.
\<close>

definition handshakeStep :: "Dispatch \<Rightarrow> Env \<Rightarrow> sys \<Rightarrow> unit outcome \<times> sys" where
  "handshakeStep dispatch env s =
     (case s of (b, w) \<Rightarrow>
        (case multicastClientSocketPtr b of
           None \<Rightarrow> (NullDeref, (b, w))
         | Some sock \<Rightarrow>
             (case updateDataModelFromServer dispatch env
                     (b, emit (Send (socketId sock) (commandPort (serverDescription b))) w) of
                (Returns r, (b1, w1)) \<Rightarrow>
                   (Returns (), (b1, emit (Sleep (if r then 10 else 1000000)) w1))
              | (OutOfFuel, s1) \<Rightarrow> (OutOfFuel, s1)
              | (NullDeref, s1) \<Rightarrow> (NullDeref, s1))))"

text \<open>Lines 80 to 83 of \<^verbatim>\<open>initialize\<close>: a non-empty version hint is written into the data model.\<close>

definition applyVersionHint :: "OptiTrackRosBridge \<Rightarrow> OptiTrackRosBridge" where
  "applyVersionHint b =
     (if version (serverDescription b) \<noteq> [] then
        b\<lparr>dataModel := setVersions (version (serverDescription b))
                                   (version (serverDescription b))
                                   (dataModel b)\<rparr>
      else b)"

text \<open>Lines 63 to 66 of \<^verbatim>\<open>reconfigureCallback\<close>: four fields of the description are overwritten.\<close>

definition applyConfig :: "MocapOptitrackConfig \<Rightarrow> OptiTrackRosBridge \<Rightarrow> OptiTrackRosBridge" where
  "applyConfig config b =
     b\<lparr>serverDescription := (serverDescription b)
          \<lparr>enableOptitrack := enable_optitrack config,
           commandPort := command_port config,
           dataPort := data_port config,
           multicastIpAddress := multicast_address config\<rparr>\<rparr>"

text \<open>
  \<^verbatim>\<open>ros::spinOnce()\<close> takes the next batch of pending reconfiguration requests from the
  callback queue; \<open>callAvailable\<close> below runs them in order.
\<close>

definition spinOnce :: "World \<Rightarrow> World" where
  "spinOnce w = emit SpinOnce (w\<lparr>spinIdx := Suc (spinIdx w)\<rparr>)"

text \<open>
  \<^verbatim>\<open>reconfigureCallback\<close> (lines 61 to 69) and \<^verbatim>\<open>initialize\<close> (lines 71 to 114), with
  the handshake loop of lines 87 to 100 as \<open>handshake\<close>. \<^verbatim>\<open>ros::spinOnce()\<close> at the end
  of each iteration runs the pending reconfiguration callbacks, each of which calls
  \<^verbatim>\<open>initialize\<close> again, so the four functions are mutually recursive. The loop
  condition evaluates \<^verbatim>\<open>ros::ok()\<close> first and \<^verbatim>\<open>hasServerInfo()\<close> second. The fuel
  bounds the executions of the loop body; evaluating the condition needs none.
\<close>

fun handshake :: "Dispatch \<Rightarrow> Env \<Rightarrow> nat \<Rightarrow> sys \<Rightarrow> unit outcome \<times> sys"
  and initialize :: "Dispatch \<Rightarrow> Env \<Rightarrow> nat \<Rightarrow> sys \<Rightarrow> unit outcome \<times> sys"
  and reconfigureCallback ::
    "Dispatch \<Rightarrow> Env \<Rightarrow> nat \<Rightarrow> MocapOptitrackConfig \<Rightarrow> sys \<Rightarrow> unit outcome \<times> sys"
  and callAvailable ::
    "Dispatch \<Rightarrow> Env \<Rightarrow> nat \<Rightarrow> MocapOptitrackConfig list \<Rightarrow> sys \<Rightarrow> unit outcome \<times> sys"
where
  "handshake dispatch env fuel (b, w) =
     (if fst (ros_ok env w) \<and> \<not> hasServerInfo (dataModel b) then
        (case fuel of
           0 \<Rightarrow> (OutOfFuel, (b, snd (ros_ok env w)))
         | Suc n \<Rightarrow>
             (case handshakeStep dispatch env (b, snd (ros_ok env w)) of
                (Returns u, (b1, w1)) \<Rightarrow>
                   (case callAvailable dispatch env n (spinStream env (spinIdx w1))
                           (b1, spinOnce w1) of
                      (Returns u', s2) \<Rightarrow> handshake dispatch env n s2
                    | (OutOfFuel, s2) \<Rightarrow> (OutOfFuel, s2)
                    | (NullDeref, s2) \<Rightarrow> (NullDeref, s2))
              | (OutOfFuel, s1) \<Rightarrow> (OutOfFuel, s1)
              | (NullDeref, s1) \<Rightarrow> (NullDeref, s1)))
      else (Returns (), (b, snd (ros_ok env w))))"
| "initialize dispatch env fuel (b, w) =
     (if enableOptitrack (serverDescription b) then
        (case handshake dispatch env fuel (apfst applyVersionHint (resetSocket (b, w))) of
           (Returns u, s2) \<Rightarrow>
              (Returns (), apfst (\<lambda>b3. b3\<lparr>initialized := True\<rparr>) (resetDispatcher s2))
         | (OutOfFuel, s2) \<Rightarrow> (OutOfFuel, s2)
         | (NullDeref, s2) \<Rightarrow> (NullDeref, s2))
      else (Returns (), (b\<lparr>initialized := False\<rparr>, w)))"
| "reconfigureCallback dispatch env fuel config (b, w) =
     initialize dispatch env fuel (applyConfig config b, w)"
| "callAvailable dispatch env fuel [] s = (Returns (), s)"
| "callAvailable dispatch env fuel (config # configs) s =
     (case reconfigureCallback dispatch env fuel config s of
        (Returns u, s1) \<Rightarrow> callAvailable dispatch env fuel configs s1
      | (OutOfFuel, s1) \<Rightarrow> (OutOfFuel, s1)
      | (NullDeref, s1) \<Rightarrow> (NullDeref, s1))"

text \<open>
  The body of the streaming loop before \<^verbatim>\<open>ros::spinOnce()\<close>, lines 120 to 138: when
  initialized, poll the socket once, publish the data model's rigid bodies and clear the
  model if the poll returned true, and pause 100 microseconds either way; when not
  initialized, pause one second.
\<close>

definition runStep :: "Dispatch \<Rightarrow> Env \<Rightarrow> sys \<Rightarrow> unit outcome \<times> sys" where
  "runStep dispatch env s =
     (case s of (b, w) \<Rightarrow>
        if initialized b then
          (case updateDataModelFromServer dispatch env (b, w) of
             (Returns r, (b1, w1)) \<Rightarrow>
                if r then
                  (case publishDispatcherPtr b1 of
                     None \<Rightarrow> (NullDeref, (b1, w1))
                   | Some d \<Rightarrow>
                       (Returns (),
                        (b1\<lparr>dataModel := clear (dataModel b1)\<rparr>,
                         emit (Sleep 100) (emit (Publish (rigidBodies (dataModel b1))) w1))))
                else (Returns (), (b1, emit (Sleep 100) w1))
           | (OutOfFuel, s1) \<Rightarrow> (OutOfFuel, s1)
           | (NullDeref, s1) \<Rightarrow> (NullDeref, s1))
        else (Returns (), (b, emit (Sleep 1000000) w)))"

text \<open>\<^verbatim>\<open>run\<close>, lines 116 to 141.\<close>

fun run :: "Dispatch \<Rightarrow> Env \<Rightarrow> nat \<Rightarrow> sys \<Rightarrow> unit outcome \<times> sys" where
  "run dispatch env fuel (b, w) =
     (if fst (ros_ok env w) then
        (case fuel of
           0 \<Rightarrow> (OutOfFuel, (b, snd (ros_ok env w)))
         | Suc n \<Rightarrow>
             (case runStep dispatch env (b, snd (ros_ok env w)) of
                (Returns u, (b1, w1)) \<Rightarrow>
                   (case callAvailable dispatch env n (spinStream env (spinIdx w1))
                           (b1, spinOnce w1) of
                      (Returns u', s2) \<Rightarrow> run dispatch env n s2
                    | (OutOfFuel, s2) \<Rightarrow> (OutOfFuel, s2)
                    | (NullDeref, s2) \<Rightarrow> (NullDeref, s2))
              | (OutOfFuel, s1) \<Rightarrow> (OutOfFuel, s1)
              | (NullDeref, s1) \<Rightarrow> (NullDeref, s1)))
      else (Returns (), (b, snd (ros_ok env w))))"

section \<open>Reading a trace\<close>

fun isPublish :: "event \<Rightarrow> bool" where
  "isPublish (Publish rbs) = True"
| "isPublish e = False"

text \<open>The number of \<^verbatim>\<open>publish\<close> calls in a sequence of events (the dispatch count).\<close>

definition publishCount :: "event list \<Rightarrow> nat" where
  "publishCount es = length (filter isPublish es)"

text \<open>The pauses requested in a sequence of events, in microseconds, in order.\<close>

fun pauses :: "event list \<Rightarrow> nat list" where
  "pauses [] = []"
| "pauses (Sleep n # es) = n # pauses es"
| "pauses (e # es) = pauses es"

text \<open>A duration given in milliseconds, in microseconds.\<close>

definition msec :: "nat \<Rightarrow> nat" where
  "msec n = 1000 * n"

text \<open>
  \<open>socketsOverlap opn es\<close>: starting with the sockets \<open>opn\<close> open, at some moment of
  \<open>es\<close> a socket is constructed while another one is still open.
\<close>

fun socketsOverlap :: "nat list \<Rightarrow> event list \<Rightarrow> bool" where
  "socketsOverlap opn [] = False"
| "socketsOverlap opn (SocketOpen i p a # es) =
     (if opn = [] then socketsOverlap [i] es else True)"
| "socketsOverlap opn (SocketClose i # es) = socketsOverlap (removeAll i opn) es"
| "socketsOverlap opn (e # es) = socketsOverlap opn es"

text \<open>The events a call added to the trace: those of \<open>w'\<close> that come after the events of \<open>w\<close>.\<close>

definition eventsSince :: "World \<Rightarrow> World \<Rightarrow> event list" where
  "eventsSince w w' = drop (length (trace w)) (trace w')"

section \<open>A message codec after the spec\<close>

text \<open>
  Modelled from the spec: the message codec (\<^verbatim>\<open>natnet/natnet_messages.h\<close> is not among
  the sources) deserialises an inbound buffer into a typed protocol event, server-info or
  data-frame, applied to the data model, and classifies an unrecognised payload silently.
  The byte layout is outside the spec, so the classification \<open>deserialize\<close> is a
  parameter. \<open>decodeInto\<close> is one \<open>dispatch\<close> the functions above can be run with.
\<close>

datatype ProtocolEvent =
    ServerInfoEvent Version Version
  | DataFrameEvent "RigidBody list"
  | Unrecognized

fun isDataFrame :: "ProtocolEvent \<Rightarrow> bool" where
  "isDataFrame (DataFrameEvent rbs) = True"
| "isDataFrame e = False"

definition decodeInto :: "(MessageBuffer \<Rightarrow> ProtocolEvent) \<Rightarrow> Dispatch" where
  "decodeInto deserialize buf dm =
     (case deserialize buf of
        ServerInfoEvent nver sver \<Rightarrow> setVersions nver sver dm
      | DataFrameEvent rbs \<Rightarrow> dm\<lparr>rigidBodies := rbs\<rparr>
      | Unrecognized \<Rightarrow> dm)"

section \<open>Example states and inputs\<close>

text \<open>
  The description of the end-to-end scenarios, and a bridge on which nothing has run yet:
  no socket, no dispatcher, no server info.
\<close>

definition exampleDescription :: ServerDescription where
  "exampleDescription =
     \<lparr>enableOptitrack = True, commandPort = 1511, dataPort = 1510,
      multicastIpAddress = ''239.255.42.99'', version = []\<rparr>"

definition freshBridge :: OptiTrackRosBridge where
  "freshBridge =
     \<lparr>serverDescription = exampleDescription,
      publisherConfigurations = [],
      dataModel = \<lparr>serverInfo = None, rigidBodies = []\<rparr>,
      multicastClientSocketPtr = None,
      publishDispatcherPtr = None,
      initialized = False\<rparr>"

definition freshWorld :: World where
  "freshWorld = \<lparr>okIdx = 0, recvIdx = 0, spinIdx = 0, nextSocketId = 0, trace = []\<rparr>"

text \<open>The same bridge when the description carries a version hint.\<close>

definition hintedBridge :: OptiTrackRosBridge where
  "hintedBridge = freshBridge\<lparr>serverDescription := exampleDescription\<lparr>version := [3, 0, 0, 0]\<rparr>\<rparr>"

text \<open>
  A classification of buffers for the codec above: one server-info message advertising
  version 3.0.0.0, a data frame with the rigid bodies 1 and 2, an empty data frame, and
  everything else unrecognised.
\<close>

definition exampleDeserialize :: "MessageBuffer \<Rightarrow> ProtocolEvent" where
  "exampleDeserialize buf =
     (if buf = ''info'' then ServerInfoEvent [3, 0, 0, 0] [3, 0, 0, 0]
      else if buf = ''frame'' then
        DataFrameEvent [\<lparr>bodyId = 1, pose = []\<rparr>, \<lparr>bodyId = 2, pose = []\<rparr>]
      else if buf = ''empty'' then DataFrameEvent []
      else Unrecognized)"

text \<open>
  Input streams. In all of them no reconfiguration is requested. \<open>answeringEnv\<close> is
  end-to-end scenario A: the server answers the first connection request with its server
  info, the next datagram is a data frame, then nothing more, and shutdown is requested
  at the fifth \<^verbatim>\<open>ros::ok()\<close>. \<open>silentEnv\<close> is a server that never answers,
  \<open>interruptedEnv\<close> the same with shutdown requested at the third \<^verbatim>\<open>ros::ok()\<close>. In
  \<open>junkEnv\<close> every receive yields four bytes the codec does not recognise, in
  \<open>frameEnv\<close> a data frame, in \<open>emptyFrameEnv\<close> a data frame without rigid bodies.
\<close>

definition answeringEnv :: Env where
  "answeringEnv =
     \<lparr>okStream = (\<lambda>n. n < 4),
      recvStream = (\<lambda>n. if n = 0 then (4, ''info'') else if n = 1 then (5, ''frame'') else (0, [])),
      spinStream = (\<lambda>n. [])\<rparr>"

definition silentEnv :: Env where
  "silentEnv = \<lparr>okStream = (\<lambda>n. True), recvStream = (\<lambda>n. (0, [])), spinStream = (\<lambda>n. [])\<rparr>"

definition interruptedEnv :: Env where
  "interruptedEnv =
     \<lparr>okStream = (\<lambda>n. n < 2), recvStream = (\<lambda>n. (0, [])), spinStream = (\<lambda>n. [])\<rparr>"

definition junkEnv :: Env where
  "junkEnv = \<lparr>okStream = (\<lambda>n. True), recvStream = (\<lambda>n. (4, ''junk'')), spinStream = (\<lambda>n. [])\<rparr>"

definition frameEnv :: Env where
  "frameEnv = \<lparr>okStream = (\<lambda>n. True), recvStream = (\<lambda>n. (5, ''frame'')), spinStream = (\<lambda>n. [])\<rparr>"

definition emptyFrameEnv :: Env where
  "emptyFrameEnv =
     \<lparr>okStream = (\<lambda>n. True), recvStream = (\<lambda>n. (5, ''empty'')), spinStream = (\<lambda>n. [])\<rparr>"

text \<open>
  The bridge in the middle of streaming: the state \<^verbatim>\<open>initialize\<close> returns in scenario A
  (lemma \<open>streaming_reached\<close> below), with socket 0 bound, the server info received and
  the dispatcher constructed.
\<close>

definition streamingBridge :: OptiTrackRosBridge where
  "streamingBridge =
     \<lparr>serverDescription = exampleDescription,
      publisherConfigurations = [],
      dataModel = \<lparr>serverInfo = Some ([3, 0, 0, 0], [3, 0, 0, 0]), rigidBodies = []\<rparr>,
      multicastClientSocketPtr =
        Some \<lparr>socketId = 0, localPort = 1510, multicastGroup = ''239.255.42.99''\<rparr>,
      publishDispatcherPtr = Some \<lparr>natNetVersion = Some [3, 0, 0, 0], configurations = []\<rparr>,
      initialized = True\<rparr>"

definition streamingWorld :: World where
  "streamingWorld =
     \<lparr>okIdx = 2, recvIdx = 1, spinIdx = 1, nextSocketId = 1,
      trace = [SocketOpen 0 1510 ''239.255.42.99'', OkCheck True, Send 0 1511, Recv 0 4,
               Decode ''info'', Sleep 10, SpinOnce, OkCheck True,
               DispatcherCreate (Some [3, 0, 0, 0])]\<rparr>"

text \<open>
  Two reconfiguration requests: one moves the connection to another port and group, one
  disables it.
\<close>

definition movedConfig :: MocapOptitrackConfig where
  "movedConfig =
     \<lparr>enable_optitrack = True, command_port = 1511, data_port = 1512,
      multicast_address = ''239.255.42.100''\<rparr>"

definition offConfig :: MocapOptitrackConfig where
  "offConfig =
     \<lparr>enable_optitrack = False, command_port = 1511, data_port = 1510,
      multicast_address = ''239.255.42.99''\<rparr>"

text \<open>The streaming bridge once \<open>movedConfig\<close> has been delivered to it.\<close>

definition movedSys :: sys where
  "movedSys =
     snd (reconfigureCallback (decodeInto exampleDeserialize) silentEnv 0 movedConfig
            (streamingBridge, streamingWorld))"

text \<open>
  The bridge at the entry of the handshake loop: \<^verbatim>\<open>initialize\<close> has constructed the
  socket and found no version hint.
\<close>

definition handshakingSys :: sys where
  "handshakingSys = apfst applyVersionHint (resetSocket (freshBridge, freshWorld))"

section \<open>Unfolding the loops\<close>

declare handshake.simps [simp del] initialize.simps [simp del] run.simps [simp del]
  reconfigureCallback.simps [simp del]

lemma handshake_stop:
  "\<not> (fst (ros_ok env w) \<and> \<not> hasServerInfo (dataModel b)) \<Longrightarrow>
   handshake dispatch env fuel (b, w) = (Returns (), (b, snd (ros_ok env w)))"
  by (subst handshake.simps) auto

lemma handshake_0:
  "fst (ros_ok env w) \<and> \<not> hasServerInfo (dataModel b) \<Longrightarrow>
   handshake dispatch env 0 (b, w) = (OutOfFuel, (b, snd (ros_ok env w)))"
  by (subst handshake.simps) auto

lemma handshake_Suc:
  "fst (ros_ok env w) \<and> \<not> hasServerInfo (dataModel b) \<Longrightarrow>
   handshake dispatch env (Suc n) (b, w) =
     (case handshakeStep dispatch env (b, snd (ros_ok env w)) of
        (Returns u, (b1, w1)) \<Rightarrow>
           (case callAvailable dispatch env n (spinStream env (spinIdx w1)) (b1, spinOnce w1) of
              (Returns u', s2) \<Rightarrow> handshake dispatch env n s2
            | (OutOfFuel, s2) \<Rightarrow> (OutOfFuel, s2)
            | (NullDeref, s2) \<Rightarrow> (NullDeref, s2))
      | (OutOfFuel, s1) \<Rightarrow> (OutOfFuel, s1)
      | (NullDeref, s1) \<Rightarrow> (NullDeref, s1))"
  by (subst handshake.simps) auto

subsection \<open>A relation kept by every step is kept by every call\<close>

lemma steps_relation:
  assumes rfl: "\<And>s. R s s"
    and trn: "\<And>s t u. R s t \<Longrightarrow> R t u \<Longrightarrow> R s u"
    and ok: "\<And>b w. R (b, w) (b, snd (ros_ok env w))"
    and step: "\<And>s. R s (snd (handshakeStep dispatch env s))"
    and spin: "\<And>b w. R (b, w) (b, spinOnce w)"
    and pre: "\<And>b w. enableOptitrack (serverDescription b) \<Longrightarrow>
                R (b, w) (apfst applyVersionHint (resetSocket (b, w)))"
    and post: "\<And>s. R s (apfst (\<lambda>b. b\<lparr>initialized := True\<rparr>) (resetDispatcher s))"
    and off: "\<And>b w. \<not> enableOptitrack (serverDescription b) \<Longrightarrow>
                R (b, w) (b\<lparr>initialized := False\<rparr>, w)"
    and cfg: "\<And>config b w. R (b, w) (applyConfig config b, w)"
  shows "R s (snd (handshake dispatch env fuel s))"
    and "R s (snd (initialize dispatch env fuel s))"
    and "R s (snd (reconfigureCallback dispatch env fuel config s))"
    and "R s (snd (callAvailable dispatch env fuel configs s))"
  using assms
proof (induction dispatch env fuel s and dispatch env fuel s and dispatch env fuel config s
         and dispatch env fuel configs s
       rule: handshake_initialize_reconfigureCallback_callAvailable.induct)
  case (1 dispatch env fuel b w)
  note ok1 = "1.prems"(3)[of b w]
  show ?case
  proof (cases "fst (ros_ok env w) \<and> \<not> hasServerInfo (dataModel b)")
    case False
    then show ?thesis using ok1 by (simp add: handshake_stop)
  next
    case go: True
    show ?thesis
    proof (cases fuel)
      case 0
      then show ?thesis using go ok1 by (simp add: handshake_0)
    next
      case (Suc n)
      obtain x b1 w1 where hs: "handshakeStep dispatch env (b, snd (ros_ok env w)) = (x, (b1, w1))"
        by (metis prod.exhaust)
      have r1: "R (b, w) (b1, w1)"
        using "1.prems"(2)[OF ok1 "1.prems"(4)[of "(b, snd (ros_ok env w))"]] hs by simp
      show ?thesis
      proof (cases x)
        case (Returns u)
        obtain xb yb where ca: "callAvailable dispatch env n (spinStream env (spinIdx w1))
            (b1, spinOnce w1) = (xb, yb)"
          by (metis prod.exhaust)
        have "R (b1, spinOnce w1) (snd (callAvailable dispatch env n (spinStream env (spinIdx w1))
            (b1, spinOnce w1)))"
          by (rule "1.IH"(1)[OF go Suc hs[symmetric] Returns refl "1.prems"])
        then have r2: "R (b, w) yb"
          using ca "1.prems"(2)[OF r1 "1.prems"(2)[OF "1.prems"(5)[of b1 w1]]] by simp
        show ?thesis
        proof (cases xb)
          case ret: (Returns u')
          have "R yb (snd (handshake dispatch env n yb))"
            by (rule "1.IH"(2)[OF go Suc hs[symmetric] Returns refl ca[symmetric] ret "1.prems"])
          then have "R (b, w) (snd (handshake dispatch env n yb))"
            using "1.prems"(2)[OF r2] by blast
          then show ?thesis using go Suc hs Returns ca ret
            by (simp add: handshake_Suc)
        qed (use go Suc hs Returns ca r2 in \<open>simp_all add: handshake_Suc\<close>)
      qed (use go Suc hs r1 in \<open>simp_all add: handshake_Suc\<close>)
    qed
  qed
next
  case (2 dispatch env fuel b w)
  show ?case
  proof (cases "enableOptitrack (serverDescription b)")
    case False
    then show ?thesis using "2.prems"(8)[of b w] by (simp add: initialize.simps)
  next
    case True
    let ?s1 = "apfst applyVersionHint (resetSocket (b, w))"
    obtain x s2 where h: "handshake dispatch env fuel ?s1 = (x, s2)"
      by (metis prod.exhaust)
    have "R ?s1 (snd (handshake dispatch env fuel ?s1))"
      by (rule "2.IH"[OF True "2.prems"])
    then have r: "R (b, w) s2"
      using h "2.prems"(2)[OF "2.prems"(6)[OF True, of w]] by simp
    show ?thesis
    proof (cases x)
      case (Returns u)
      then show ?thesis using True h "2.prems"(2)[OF r "2.prems"(7)[of s2]]
        by (simp add: initialize.simps)
    qed (use True h r in \<open>simp_all add: initialize.simps\<close>)
  qed
next
  case (3 dispatch env fuel config b w)
  have "R (applyConfig config b, w) (snd (initialize dispatch env fuel (applyConfig config b, w)))"
    by (rule "3.IH"[OF "3.prems"])
  then show ?case using "3.prems"(2)[OF "3.prems"(9)[of b w config]]
    by (simp add: reconfigureCallback.simps)
next
  case (4 dispatch env fuel s)
  then show ?case by simp
next
  case (5 dispatch env fuel config configs s)
  obtain x s1 where rc: "reconfigureCallback dispatch env fuel config s = (x, s1)"
    by (metis prod.exhaust)
  have "R s (snd (reconfigureCallback dispatch env fuel config s))"
    by (rule "5.IH"(1)[OF "5.prems"])
  then have r: "R s s1" using rc by simp
  show ?case
  proof (cases x)
    case (Returns u)
    have "R s1 (snd (callAvailable dispatch env fuel configs s1))"
      by (rule "5.IH"(2)[OF rc[symmetric] Returns "5.prems"])
    then show ?thesis using rc Returns "5.prems"(2)[OF r] by simp
  qed (use rc r in simp_all)
qed


lemma run_stop:
  "\<not> fst (ros_ok env w) \<Longrightarrow>
   run dispatch env fuel (b, w) = (Returns (), (b, snd (ros_ok env w)))"
  by (subst run.simps) auto

lemma run_0:
  "fst (ros_ok env w) \<Longrightarrow> run dispatch env 0 (b, w) = (OutOfFuel, (b, snd (ros_ok env w)))"
  by (subst run.simps) auto

lemma run_Suc:
  "fst (ros_ok env w) \<Longrightarrow>
   run dispatch env (Suc n) (b, w) =
     (case runStep dispatch env (b, snd (ros_ok env w)) of
        (Returns u, (b1, w1)) \<Rightarrow>
           (case callAvailable dispatch env n (spinStream env (spinIdx w1)) (b1, spinOnce w1) of
              (Returns u', s2) \<Rightarrow> run dispatch env n s2
            | (OutOfFuel, s2) \<Rightarrow> (OutOfFuel, s2)
            | (NullDeref, s2) \<Rightarrow> (NullDeref, s2))
      | (OutOfFuel, s1) \<Rightarrow> (OutOfFuel, s1)
      | (NullDeref, s1) \<Rightarrow> (NullDeref, s1))"
  by (subst run.simps) auto

lemma run_relation:
  assumes rfl: "\<And>s. R s s"
    and trn: "\<And>s t u. R s t \<Longrightarrow> R t u \<Longrightarrow> R s u"
    and ok: "\<And>b w. R (b, w) (b, snd (ros_ok env w))"
    and step: "\<And>s. R s (snd (runStep dispatch env s))"
    and spin: "\<And>b w. R (b, w) (b, spinOnce w)"
    and calls: "\<And>n configs s. R s (snd (callAvailable dispatch env n configs s))"
  shows "R s (snd (run dispatch env fuel s))"
proof (induction fuel arbitrary: s)
  case 0
  obtain b w where s: "s = (b, w)" by (cases s)
  show ?case using ok[of b w] unfolding s
    by (cases "fst (ros_ok env w)") (simp_all add: run_stop run_0)
next
  case (Suc n)
  obtain b w where s: "s = (b, w)" by (cases s)
  show ?case
  proof (cases "fst (ros_ok env w)")
    case False
    then show ?thesis using ok[of b w] unfolding s by (simp add: run_stop)
  next
    case go: True
    obtain x b1 w1 where rs: "runStep dispatch env (b, snd (ros_ok env w)) = (x, (b1, w1))"
      by (metis prod.exhaust)
    have r1: "R (b, w) (b1, w1)"
      using trn[OF ok[of b w] step[of "(b, snd (ros_ok env w))"]] rs by simp
    show ?thesis
    proof (cases x)
      case (Returns u)
      obtain xb yb where ca: "callAvailable dispatch env n (spinStream env (spinIdx w1))
          (b1, spinOnce w1) = (xb, yb)"
        by (metis prod.exhaust)
      have r2: "R (b, w) yb"
        using trn[OF r1 trn[OF spin[of b1 w1] calls[of "(b1, spinOnce w1)" n
              "spinStream env (spinIdx w1)"]]] ca by simp
      show ?thesis
      proof (cases xb)
        case ret: (Returns u')
        have "R (b, w) (snd (run dispatch env n yb))"
          by (rule trn[OF r2 Suc.IH])
        then show ?thesis using go rs Returns ca ret unfolding s by (simp add: run_Suc)
      qed (use go rs Returns ca r2 in \<open>simp_all add: s run_Suc\<close>)
    qed (use go rs r1 in \<open>simp_all add: s run_Suc\<close>)
  qed
qed

subsection \<open>Traces only grow, and only the streaming loop publishes\<close>

lemma publishCount_simps [simp]:
  "publishCount [] = 0"
  "publishCount (es @ es') = publishCount es + publishCount es'"
  "publishCount (e # es) = (if isPublish e then 1 else 0) + publishCount es"
  by (simp_all add: publishCount_def)

lemma updateDataModelFromServer_trace:
  "\<exists>es. trace (snd (snd (updateDataModelFromServer dispatch env s))) = trace (snd s) @ es \<and>
        publishCount es = 0"
  by (cases s) (simp add: updateDataModelFromServer_def emit_def Let_def split: option.splits)

lemma handshakeStep_trace:
  "\<exists>es. trace (snd (snd (handshakeStep dispatch env s))) = trace (snd s) @ es \<and>
        publishCount es = 0"
proof -
  obtain b w where s: "s = (b, w)" by (cases s)
  show ?thesis
  proof (cases "multicastClientSocketPtr b")
    case None
    then show ?thesis by (simp add: s handshakeStep_def)
  next
    case (Some sock)
    let ?w = "emit (Send (socketId sock) (commandPort (serverDescription b))) w"
    obtain x b1 w1 where u: "updateDataModelFromServer dispatch env (b, ?w) = (x, (b1, w1))"
      by (metis prod.exhaust)
    from updateDataModelFromServer_trace[of dispatch env "(b, ?w)"] u
    obtain es where "trace w1 = trace w @ Send (socketId sock) (commandPort (serverDescription b)) # es"
      "publishCount es = 0"
      by (auto simp: emit_def)
    then show ?thesis using Some u
      by (cases x) (simp_all add: s handshakeStep_def emit_def)
  qed
qed

lemma no_publish_steps:
  shows "\<exists>es. trace (snd (snd (handshake dispatch env fuel s))) = trace (snd s) @ es \<and>
          publishCount es = 0"
    and "\<exists>es. trace (snd (snd (initialize dispatch env fuel s))) = trace (snd s) @ es \<and>
          publishCount es = 0"
    and "\<exists>es. trace (snd (snd (reconfigureCallback dispatch env fuel config s))) = trace (snd s) @ es \<and>
          publishCount es = 0"
    and "\<exists>es. trace (snd (snd (callAvailable dispatch env fuel configs s))) = trace (snd s) @ es \<and>
          publishCount es = 0"
proof -
  let ?R = "\<lambda>s s'. \<exists>es. trace (snd s') = trace (snd s) @ es \<and> publishCount es = 0"
  have rfl: "\<And>s. ?R s s" by simp
  have trn: "\<And>s t u. ?R s t \<Longrightarrow> ?R t u \<Longrightarrow> ?R s u"
    by (metis (no_types, lifting) append.assoc publishCount_simps(2) add.right_neutral)
  have ok: "\<And>b w. ?R (b, w) (b, snd (ros_ok env w))"
    by (simp add: ros_ok_def emit_def)
  have step: "\<And>s. ?R s (snd (handshakeStep dispatch env s))"
    by (rule handshakeStep_trace)
  have spin: "\<And>b w. ?R (b, w) (b, spinOnce w)"
    by (simp add: spinOnce_def emit_def)
  have pre: "\<And>b w. enableOptitrack (serverDescription b) \<Longrightarrow>
                ?R (b, w) (apfst applyVersionHint (resetSocket (b, w)))"
    by (simp add: resetSocket_def emit_def Let_def split: option.splits)
  have post: "\<And>s. ?R s (apfst (\<lambda>b. b\<lparr>initialized := True\<rparr>) (resetDispatcher s))"
    by (simp add: resetDispatcher_def emit_def split: prod.splits)
  have off: "\<And>b w. \<not> enableOptitrack (serverDescription b) \<Longrightarrow>
                ?R (b, w) (b\<lparr>initialized := False\<rparr>, w)"
    by simp
  have cfg: "\<And>config b w. ?R (b, w) (applyConfig config b, w)"
    by simp
  note all = rfl trn ok step spin pre post off cfg
  show "?R s (snd (handshake dispatch env fuel s))"
    by (rule steps_relation(1)[where R = ?R, OF all])
  show "?R s (snd (initialize dispatch env fuel s))"
    by (rule steps_relation(2)[where R = ?R, OF all])
  show "?R s (snd (reconfigureCallback dispatch env fuel config s))"
    by (rule steps_relation(3)[where R = ?R, OF all])
  show "?R s (snd (callAvailable dispatch env fuel configs s))"
    by (rule steps_relation(4)[where R = ?R, OF all])
qed

subsection \<open>What the steps compute\<close>

lemma eventsSince_append [simp]: "trace w' = trace w @ es \<Longrightarrow> eventsSince w w' = es"
  by (simp add: eventsSince_def)

lemma resetSocket_eq:
  "resetSocket (b, w) =
     (b\<lparr>multicastClientSocketPtr :=
          Some \<lparr>socketId = nextSocketId w, localPort = dataPort (serverDescription b),
                multicastGroup = multicastIpAddress (serverDescription b)\<rparr>\<rparr>,
      w\<lparr>nextSocketId := Suc (nextSocketId w),
        trace := trace w @
          SocketOpen (nextSocketId w) (dataPort (serverDescription b))
                     (multicastIpAddress (serverDescription b)) #
          (case multicastClientSocketPtr b of None \<Rightarrow> [] | Some old \<Rightarrow> [SocketClose (socketId old)])\<rparr>)"
  by (simp add: resetSocket_def emit_def Let_def split: option.splits)

lemma initialize_disabled:
  "\<not> enableOptitrack (serverDescription b) \<Longrightarrow>
   initialize dispatch env fuel (b, w) = (Returns (), (b\<lparr>initialized := False\<rparr>, w))"
  by (simp add: initialize.simps)

text \<open>
  When the data model has server info once the version hint is applied, the handshake
  loop evaluates its condition once and its body never: \<^verbatim>\<open>initialize\<close> needs no fuel.
\<close>

lemma initialize_ready:
  assumes "enableOptitrack (serverDescription b)"
    and "hasServerInfo (dataModel (applyVersionHint b))"
  shows "initialize dispatch env fuel (b, w) =
     (Returns (),
      ((applyVersionHint b)
         \<lparr>multicastClientSocketPtr :=
            Some \<lparr>socketId = nextSocketId w, localPort = dataPort (serverDescription b),
                  multicastGroup = multicastIpAddress (serverDescription b)\<rparr>,
          publishDispatcherPtr :=
            Some \<lparr>natNetVersion = getNatNetVersion (dataModel (applyVersionHint b)),
                  configurations = publisherConfigurations b\<rparr>,
          initialized := True\<rparr>,
       w\<lparr>okIdx := Suc (okIdx w), nextSocketId := Suc (nextSocketId w),
         trace := trace w @
           SocketOpen (nextSocketId w) (dataPort (serverDescription b))
                      (multicastIpAddress (serverDescription b)) #
           (case multicastClientSocketPtr b of None \<Rightarrow> [] | Some old \<Rightarrow> [SocketClose (socketId old)]) @
           [OkCheck (okStream env (okIdx w)),
            DispatcherCreate (getNatNetVersion (dataModel (applyVersionHint b)))]\<rparr>))"
proof -
  let ?b1 = "applyVersionHint (fst (resetSocket (b, w)))"
  let ?w1 = "snd (resetSocket (b, w))"
  have dm: "dataModel ?b1 = dataModel (applyVersionHint b)"
    by (simp add: resetSocket_eq applyVersionHint_def)
  have stop: "\<not> (fst (ros_ok env ?w1) \<and> \<not> hasServerInfo (dataModel ?b1))"
    using assms(2) dm by simp
  have "apfst applyVersionHint (resetSocket (b, w)) = (?b1, ?w1)"
    by (simp add: apfst_def map_prod_def split: prod.splits)
  then have "handshake dispatch env fuel (apfst applyVersionHint (resetSocket (b, w))) =
      (Returns (), (?b1, snd (ros_ok env ?w1)))"
    using handshake_stop[OF stop] by simp
  then show ?thesis using assms(1)
    by (simp add: initialize.simps resetDispatcher_def resetSocket_eq ros_ok_def emit_def
        applyVersionHint_def)
qed

lemma updateDataModelFromServer_eq:
  assumes "multicastClientSocketPtr b = Some sock"
  shows "updateDataModelFromServer dispatch env (b, w) =
     (Returns (0 < numBytes env w),
      (if 0 < numBytes env w then b\<lparr>dataModel := dispatch (received env w) (dataModel b)\<rparr> else b,
       w\<lparr>recvIdx := Suc (recvIdx w),
         trace := trace w @ Recv (socketId sock) (numBytes env w) #
           (if 0 < numBytes env w then [Decode (received env w)] else [])\<rparr>))"
  using assms
  by (simp add: updateDataModelFromServer_def emit_def Let_def numBytes_def received_def)

lemma handshakeStep_eq:
  assumes "multicastClientSocketPtr b = Some sock"
  shows "handshakeStep dispatch env (b, w) =
     (Returns (),
      (if 0 < numBytes env w then b\<lparr>dataModel := dispatch (received env w) (dataModel b)\<rparr> else b,
       w\<lparr>recvIdx := Suc (recvIdx w),
         trace := trace w @ Send (socketId sock) (commandPort (serverDescription b)) #
           Recv (socketId sock) (numBytes env w) #
           (if 0 < numBytes env w then [Decode (received env w), Sleep 10] else [Sleep 1000000])\<rparr>))"
  using assms
  by (simp add: handshakeStep_def updateDataModelFromServer_eq[OF assms] emit_def
      numBytes_def received_def)

lemma runStep_eq:
  assumes "initialized b" and "multicastClientSocketPtr b = Some sock"
    and "publishDispatcherPtr b = Some d"
  shows "runStep dispatch env (b, w) =
     (Returns (),
      (if 0 < numBytes env w then
         b\<lparr>dataModel := clear (dispatch (received env w) (dataModel b))\<rparr>
       else b,
       w\<lparr>recvIdx := Suc (recvIdx w),
         trace := trace w @ Recv (socketId sock) (numBytes env w) #
           (if 0 < numBytes env w then
              [Decode (received env w),
               Publish (rigidBodies (dispatch (received env w) (dataModel b))), Sleep 100]
            else [Sleep 100])\<rparr>))"
  using assms
  by (simp add: runStep_def updateDataModelFromServer_eq[OF assms(2)] emit_def)

lemma runStep_idle:
  "\<not> initialized b \<Longrightarrow> runStep dispatch env (b, w) = (Returns (), (b, emit (Sleep 1000000) w))"
  by (simp add: runStep_def)

lemma callAvailable_publishCount:
  "publishCount (eventsSince (snd s) (snd (snd (callAvailable dispatch env fuel configs s)))) = 0"
  using no_publish_steps(4)[of dispatch env fuel configs s] by auto

subsection \<open>Fields that the steps leave alone\<close>

lemma bridge_same_but_dataModel [simp]:
  "\<exists>dm. (b::OptiTrackRosBridge) = b\<lparr>dataModel := dm\<rparr>"
  by (rule exI[of _ "dataModel b"]) simp

lemma bridge_update_but_dataModel [simp]:
  "\<exists>dm. (b::OptiTrackRosBridge)\<lparr>dataModel := dm'\<rparr> = b\<lparr>dataModel := dm\<rparr>"
  by (rule exI[of _ dm']) simp

lemma updateDataModelFromServer_bridge:
  "\<exists>dm. fst (snd (updateDataModelFromServer dispatch env s)) = (fst s)\<lparr>dataModel := dm\<rparr>"
proof (cases s)
  case (Pair b w)
  show ?thesis unfolding Pair
    by (auto simp add: updateDataModelFromServer_def Let_def split: option.splits)
qed

lemma handshakeStep_bridge:
  "\<exists>dm. fst (snd (handshakeStep dispatch env s)) = (fst s)\<lparr>dataModel := dm\<rparr>"
proof (cases s)
  case (Pair b w)
  show ?thesis
  proof (cases "multicastClientSocketPtr b")
    case None
    then show ?thesis unfolding Pair by (auto simp add: handshakeStep_def)
  next
    case (Some sock)
    show ?thesis unfolding Pair by (auto simp add: handshakeStep_eq[OF Some])
  qed
qed

lemma runStep_bridge:
  "\<exists>dm. fst (snd (runStep dispatch env s)) = (fst s)\<lparr>dataModel := dm\<rparr>"
proof (cases s)
  case (Pair b w)
  obtain x b1 w1 where u: "updateDataModelFromServer dispatch env (b, w) = (x, (b1, w1))"
    by (metis prod.exhaust)
  obtain dm where b1: "b1 = b\<lparr>dataModel := dm\<rparr>"
    using updateDataModelFromServer_bridge[of dispatch env "(b, w)"] u by auto
  show ?thesis
  proof (cases "initialized b")
    case False
    then show ?thesis unfolding Pair by (auto simp add: runStep_def)
  next
    case True
    have "\<exists>dm'. fst (snd (runStep dispatch env (b, w))) = b\<lparr>dataModel := dm'\<rparr>"
      using True u b1
      by (cases x) (auto simp add: runStep_def split: option.splits)
    then show ?thesis unfolding Pair by simp
  qed
qed

text \<open>The version field of the description is written nowhere.\<close>

lemma version_steps:
  shows "version (serverDescription (fst (snd (handshake dispatch env fuel s)))) =
           version (serverDescription (fst s))"
    and "version (serverDescription (fst (snd (initialize dispatch env fuel s)))) =
           version (serverDescription (fst s))"
    and "version (serverDescription (fst (snd (reconfigureCallback dispatch env fuel config s)))) =
           version (serverDescription (fst s))"
    and "version (serverDescription (fst (snd (callAvailable dispatch env fuel configs s)))) =
           version (serverDescription (fst s))"
proof -
  let ?R = "\<lambda>s s'. version (serverDescription (fst s')) = version (serverDescription (fst s))"
  have rfl: "\<And>s. ?R s s" by simp
  have trn: "\<And>s t u. ?R s t \<Longrightarrow> ?R t u \<Longrightarrow> ?R s u" by simp
  have ok: "\<And>b w. ?R (b, w) (b, snd (ros_ok env w))" by simp
  have step: "\<And>s. ?R s (snd (handshakeStep dispatch env s))"
  proof -
    fix s
    obtain dm where "fst (snd (handshakeStep dispatch env s)) = (fst s)\<lparr>dataModel := dm\<rparr>"
      using handshakeStep_bridge by blast
    then show "?R s (snd (handshakeStep dispatch env s))" by simp
  qed
  have spin: "\<And>b w. ?R (b, w) (b, spinOnce w)" by simp
  have pre: "\<And>b w. enableOptitrack (serverDescription b) \<Longrightarrow>
                ?R (b, w) (apfst applyVersionHint (resetSocket (b, w)))"
    by (simp add: resetSocket_eq applyVersionHint_def)
  have post: "\<And>s. ?R s (apfst (\<lambda>b. b\<lparr>initialized := True\<rparr>) (resetDispatcher s))"
    by (simp add: resetDispatcher_def split: prod.splits)
  have off: "\<And>b w. \<not> enableOptitrack (serverDescription b) \<Longrightarrow>
                ?R (b, w) (b\<lparr>initialized := False\<rparr>, w)"
    by simp
  have cfg: "\<And>config b w. ?R (b, w) (applyConfig config b, w)"
    by (simp add: applyConfig_def)
  note all = rfl trn ok step spin pre post off cfg
  show "?R s (snd (handshake dispatch env fuel s))"
    by (rule steps_relation(1)[where R = ?R, OF all])
  show "?R s (snd (initialize dispatch env fuel s))"
    by (rule steps_relation(2)[where R = ?R, OF all])
  show "?R s (snd (reconfigureCallback dispatch env fuel config s))"
    by (rule steps_relation(3)[where R = ?R, OF all])
  show "?R s (snd (callAvailable dispatch env fuel configs s))"
    by (rule steps_relation(4)[where R = ?R, OF all])
qed

lemma version_run:
  "version (serverDescription (fst (snd (run dispatch env fuel s)))) =
     version (serverDescription (fst s))"
proof -
  let ?R = "\<lambda>s s'. version (serverDescription (fst s')) = version (serverDescription (fst s))"
  have step: "\<And>s. ?R s (snd (runStep dispatch env s))"
  proof -
    fix s
    obtain dm where "fst (snd (runStep dispatch env s)) = (fst s)\<lparr>dataModel := dm\<rparr>"
      using runStep_bridge by blast
    then show "?R s (snd (runStep dispatch env s))" by simp
  qed
  show ?thesis
    by (rule run_relation[where R = ?R]) (simp_all add: step version_steps(4))
qed

subsection \<open>Reconfiguration\<close>

lemma reconfigureCallback_disabled:
  "\<not> enable_optitrack config \<Longrightarrow>
   reconfigureCallback dispatch env fuel config (b, w) =
     (Returns (), ((applyConfig config b)\<lparr>initialized := False\<rparr>, w))"
  by (simp add: reconfigureCallback.simps initialize_disabled applyConfig_def)

lemma reconfigureCallback_hinted:
  assumes "enable_optitrack config" and "version (serverDescription b) \<noteq> []"
  shows "fst (reconfigureCallback dispatch env fuel config (b, w)) = Returns () \<and>
         serverInfo (dataModel (fst (snd (reconfigureCallback dispatch env fuel config (b, w))))) =
           Some (version (serverDescription b), version (serverDescription b))"
proof -
  have en: "enableOptitrack (serverDescription (applyConfig config b))"
    using assms(1) by (simp add: applyConfig_def)
  have v: "version (serverDescription (applyConfig config b)) = version (serverDescription b)"
    by (simp add: applyConfig_def)
  have "hasServerInfo (dataModel (applyVersionHint (applyConfig config b)))"
    using assms(2) v by (simp add: applyVersionHint_def hasServerInfo_def setVersions_def)
  from initialize_ready[OF en this, of dispatch env fuel w] show ?thesis
    using assms(2) v by (simp add: reconfigureCallback.simps applyVersionHint_def setVersions_def)
qed

text \<open>
  With a version hint, any sequence of reconfigurations returns without fuel, and
  once one of them enables the connection the server info is the hint.
\<close>

lemma callAvailable_hinted:
  assumes "version (serverDescription b) \<noteq> []"
  shows "fst (callAvailable dispatch env fuel configs (b, w)) = Returns () \<and>
         (if \<exists>c \<in> set configs. enable_optitrack c then
            serverInfo (dataModel (fst (snd (callAvailable dispatch env fuel configs (b, w))))) =
              Some (version (serverDescription b), version (serverDescription b))
          else dataModel (fst (snd (callAvailable dispatch env fuel configs (b, w)))) = dataModel b)"
  using assms
proof (induction configs arbitrary: b w)
  case Nil
  then show ?case by simp
next
  case (Cons c cs)
  obtain x b1 w1 where rc: "reconfigureCallback dispatch env fuel c (b, w) = (x, (b1, w1))"
    by (metis prod.exhaust)
  have v1: "version (serverDescription b1) = version (serverDescription b)"
    using version_steps(3)[of dispatch env fuel c "(b, w)"] rc by simp
  show ?case
  proof (cases "enable_optitrack c")
    case True
    have x: "x = Returns ()"
      and si: "serverInfo (dataModel b1) = Some (version (serverDescription b), version (serverDescription b))"
      using reconfigureCallback_hinted[OF True Cons.prems, of dispatch env fuel w] rc by simp_all
    have "version (serverDescription b1) \<noteq> []" using v1 Cons.prems by simp
    from Cons.IH[OF this, of w1] show ?thesis
      using True x si rc v1 by (auto split: if_splits)
  next
    case False
    have x: "x = Returns ()" and dm: "dataModel b1 = dataModel b"
      using reconfigureCallback_disabled[OF False, of dispatch env fuel b w] rc
      by (simp_all add: applyConfig_def)
    have "version (serverDescription b1) \<noteq> []" using v1 Cons.prems by simp
    from Cons.IH[OF this, of w1] show ?thesis
      using False x dm rc v1 by (auto split: if_splits)
  qed
qed

lemma reconfigureCallback_ready:
  assumes "enable_optitrack config" and "hasServerInfo (dataModel b)"
    and "version (serverDescription b) = []"
  shows "reconfigureCallback dispatch env fuel config (b, w) =
     (Returns (),
      ((applyConfig config b)
         \<lparr>multicastClientSocketPtr :=
            Some \<lparr>socketId = nextSocketId w, localPort = data_port config,
                  multicastGroup = multicast_address config\<rparr>,
          publishDispatcherPtr :=
            Some \<lparr>natNetVersion = getNatNetVersion (dataModel b),
                  configurations = publisherConfigurations b\<rparr>,
          initialized := True\<rparr>,
       w\<lparr>okIdx := Suc (okIdx w), nextSocketId := Suc (nextSocketId w),
         trace := trace w @
           SocketOpen (nextSocketId w) (data_port config) (multicast_address config) #
           (case multicastClientSocketPtr b of None \<Rightarrow> [] | Some old \<Rightarrow> [SocketClose (socketId old)]) @
           [OkCheck (okStream env (okIdx w)),
            DispatcherCreate (getNatNetVersion (dataModel b))]\<rparr>))"
proof -
  have en: "enableOptitrack (serverDescription (applyConfig config b))"
    using assms(1) by (simp add: applyConfig_def)
  have id: "applyVersionHint (applyConfig config b) = applyConfig config b"
    using assms(3) by (simp add: applyVersionHint_def applyConfig_def)
  have "hasServerInfo (dataModel (applyVersionHint (applyConfig config b)))"
    using assms(2) by (simp add: id) (simp add: applyConfig_def)
  from initialize_ready[OF en this, of dispatch env fuel w] show ?thesis
    by (simp add: reconfigureCallback.simps id) (simp add: applyConfig_def)
qed

lemma initialize_enabled_trace:
  assumes "enableOptitrack (serverDescription b)"
  shows "\<exists>es. trace (snd (snd (initialize dispatch env fuel (b, w)))) =
           trace (snd (resetSocket (b, w))) @ es \<and> publishCount es = 0"
proof -
  let ?s1 = "apfst applyVersionHint (resetSocket (b, w))"
  obtain x b2 w2 where h: "handshake dispatch env fuel ?s1 = (x, (b2, w2))"
    by (metis prod.exhaust)
  have t1: "trace (snd ?s1) = trace (snd (resetSocket (b, w)))"
    by (simp add: resetSocket_eq)
  obtain es where es: "trace w2 = trace (snd (resetSocket (b, w))) @ es" "publishCount es = 0"
    using no_publish_steps(1)[of dispatch env fuel ?s1] h t1 by auto
  show ?thesis
  proof (cases x)
    case (Returns u)
    have "trace (snd (snd (initialize dispatch env fuel (b, w)))) =
        trace (snd (resetSocket (b, w))) @ (es @ [DispatcherCreate (getNatNetVersion (dataModel b2))])"
      using assms h Returns es(1) by (simp add: initialize.simps resetDispatcher_def emit_def)
    moreover have "publishCount (es @ [DispatcherCreate (getNatNetVersion (dataModel b2))]) = 0"
      using es(2) by simp
    ultimately show ?thesis by blast
  qed (use assms h es in \<open>simp_all add: initialize.simps\<close>)
qed

lemma movedSys_eq:
  "movedSys =
     (\<lparr>serverDescription =
         \<lparr>enableOptitrack = True, commandPort = 1511, dataPort = 1512,
          multicastIpAddress = ''239.255.42.100'', version = []\<rparr>,
       publisherConfigurations = [],
       dataModel = \<lparr>serverInfo = Some ([3, 0, 0, 0], [3, 0, 0, 0]), rigidBodies = []\<rparr>,
       multicastClientSocketPtr =
         Some \<lparr>socketId = 1, localPort = 1512, multicastGroup = ''239.255.42.100''\<rparr>,
       publishDispatcherPtr = Some \<lparr>natNetVersion = Some [3, 0, 0, 0], configurations = []\<rparr>,
       initialized = True\<rparr>,
      streamingWorld
        \<lparr>okIdx := 3, nextSocketId := 2,
         trace := trace streamingWorld @
           [SocketOpen 1 1512 ''239.255.42.100'', SocketClose 0, OkCheck True,
            DispatcherCreate (Some [3, 0, 0, 0])]\<rparr>)"
proof -
  have h: "enable_optitrack movedConfig" "hasServerInfo (dataModel streamingBridge)"
    "version (serverDescription streamingBridge) = []"
    by (simp_all add: movedConfig_def streamingBridge_def hasServerInfo_def exampleDescription_def)
  show ?thesis
    unfolding movedSys_def
    by (simp add: reconfigureCallback_ready[OF h] applyConfig_def)
      (simp add: streamingBridge_def streamingWorld_def silentEnv_def movedConfig_def
        getNatNetVersion_def exampleDescription_def)
qed

lemma callAvailable_all_disabled:
  assumes "\<forall>c \<in> set configs. \<not> enable_optitrack c"
  shows "\<exists>b'. callAvailable dispatch env fuel configs (b, w) = (Returns (), (b', w)) \<and>
              (initialized b' \<longrightarrow> initialized b)"
  using assms
proof (induction configs arbitrary: b)
  case Nil
  then show ?case by simp
next
  case (Cons c cs)
  have off: "\<not> enable_optitrack c" using Cons.prems by simp
  obtain b' where "callAvailable dispatch env fuel cs
      ((applyConfig c b)\<lparr>initialized := False\<rparr>, w) = (Returns (), (b', w))"
    "initialized b' \<longrightarrow> initialized ((applyConfig c b)\<lparr>initialized := False\<rparr>)"
    using Cons.IH[of "(applyConfig c b)\<lparr>initialized := False\<rparr>"] Cons.prems by auto
  then show ?case
    by (simp add: reconfigureCallback_disabled[OF off])
qed

text \<open>
  A bridge that is not initialized publishes nothing, and polls nothing, for as long as
  no enabling reconfiguration is delivered.
\<close>

lemma run_disabled:
  assumes "\<not> initialized b"
    and "\<forall>i \<ge> spinIdx w. \<forall>c \<in> set (spinStream env i). \<not> enable_optitrack c"
  shows "\<exists>es. trace (snd (snd (run dispatch env fuel (b, w)))) = trace w @ es \<and>
            publishCount es = 0 \<and> recvIdx (snd (snd (run dispatch env fuel (b, w)))) = recvIdx w"
  using assms
proof (induction fuel arbitrary: b w)
  case 0
  show ?case
    by (cases "fst (ros_ok env w)") (simp_all add: run_stop run_0 ros_ok_def emit_def)
next
  case (Suc n)
  show ?case
  proof (cases "fst (ros_ok env w)")
    case False
    then show ?thesis by (simp add: run_stop ros_ok_def emit_def)
  next
    case True
    let ?w1 = "emit (Sleep 1000000) (snd (ros_ok env w))"
    have idx: "spinIdx ?w1 = spinIdx w" "spinIdx (spinOnce ?w1) = Suc (spinIdx w)"
      by (simp_all add: ros_ok_def emit_def spinOnce_def)
    have "\<forall>c \<in> set (spinStream env (spinIdx ?w1)). \<not> enable_optitrack c"
      using Suc.prems(2) idx(1) by auto
    then obtain b' where ca: "callAvailable dispatch env n (spinStream env (spinIdx ?w1))
        (b, spinOnce ?w1) = (Returns (), (b', spinOnce ?w1))" and nb: "\<not> initialized b'"
      using callAvailable_all_disabled[of "spinStream env (spinIdx ?w1)" dispatch env n b
          "spinOnce ?w1"] Suc.prems(1) by auto
    have q: "\<forall>i \<ge> spinIdx (spinOnce ?w1). \<forall>c \<in> set (spinStream env i). \<not> enable_optitrack c"
      using Suc.prems(2) by (auto simp add: idx(2) dest: Suc_leD)
    obtain es where es: "trace (snd (snd (run dispatch env n (b', spinOnce ?w1)))) =
        trace (spinOnce ?w1) @ es" "publishCount es = 0"
      "recvIdx (snd (snd (run dispatch env n (b', spinOnce ?w1)))) = recvIdx (spinOnce ?w1)"
      using Suc.IH[OF nb q] by blast
    have r: "run dispatch env (Suc n) (b, w) = run dispatch env n (b', spinOnce ?w1)"
      using True ca by (simp add: run_Suc runStep_idle[OF Suc.prems(1)])
    have t: "trace (spinOnce ?w1) = trace w @ [OkCheck True, Sleep 1000000, SpinOnce]"
      "recvIdx (spinOnce ?w1) = recvIdx w"
      using True by (simp_all add: ros_ok_def emit_def spinOnce_def)
    have "trace (snd (snd (run dispatch env (Suc n) (b, w)))) =
        trace w @ ([OkCheck True, Sleep 1000000, SpinOnce] @ es)"
      using r es(1) t(1) by simp
    moreover have "publishCount ([OkCheck True, Sleep 1000000, SpinOnce] @ es) = 0"
      using es(2) by simp
    moreover have "recvIdx (snd (snd (run dispatch env (Suc n) (b, w)))) = recvIdx w"
      using r es(3) t(2) by simp
    ultimately show ?thesis by blast
  qed
qed

subsection \<open>The handshake without server info\<close>

text \<open>Once set, the socket pointer is never null again.\<close>

lemma socket_steps:
  shows "multicastClientSocketPtr (fst s) \<noteq> None \<longrightarrow>
           multicastClientSocketPtr (fst (snd (handshake dispatch env fuel s))) \<noteq> None"
    and "multicastClientSocketPtr (fst s) \<noteq> None \<longrightarrow>
           multicastClientSocketPtr (fst (snd (initialize dispatch env fuel s))) \<noteq> None"
    and "multicastClientSocketPtr (fst s) \<noteq> None \<longrightarrow>
           multicastClientSocketPtr (fst (snd (reconfigureCallback dispatch env fuel config s))) \<noteq> None"
    and "multicastClientSocketPtr (fst s) \<noteq> None \<longrightarrow>
           multicastClientSocketPtr (fst (snd (callAvailable dispatch env fuel configs s))) \<noteq> None"
proof -
  let ?R = "\<lambda>s s'. multicastClientSocketPtr (fst s) \<noteq> None \<longrightarrow>
                    multicastClientSocketPtr (fst s') \<noteq> None"
  have rfl: "\<And>s. ?R s s" by simp
  have trn: "\<And>s t u. ?R s t \<Longrightarrow> ?R t u \<Longrightarrow> ?R s u" by simp
  have ok: "\<And>b w. ?R (b, w) (b, snd (ros_ok env w))" by simp
  have step: "\<And>s. ?R s (snd (handshakeStep dispatch env s))"
  proof -
    fix s
    obtain dm where "fst (snd (handshakeStep dispatch env s)) = (fst s)\<lparr>dataModel := dm\<rparr>"
      using handshakeStep_bridge by blast
    then show "?R s (snd (handshakeStep dispatch env s))" by simp
  qed
  have spin: "\<And>b w. ?R (b, w) (b, spinOnce w)" by simp
  have pre: "\<And>b w. enableOptitrack (serverDescription b) \<Longrightarrow>
                ?R (b, w) (apfst applyVersionHint (resetSocket (b, w)))"
    by (simp add: resetSocket_eq applyVersionHint_def)
  have post: "\<And>s. ?R s (apfst (\<lambda>b. b\<lparr>initialized := True\<rparr>) (resetDispatcher s))"
    by (simp add: resetDispatcher_def split: prod.splits)
  have off: "\<And>b w. \<not> enableOptitrack (serverDescription b) \<Longrightarrow>
                ?R (b, w) (b\<lparr>initialized := False\<rparr>, w)"
    by simp
  have cfg: "\<And>config b w. ?R (b, w) (applyConfig config b, w)"
    by (simp add: applyConfig_def)
  note all = rfl trn ok step spin pre post off cfg
  show "?R s (snd (handshake dispatch env fuel s))"
    by (rule steps_relation(1)[where R = ?R, OF all])
  show "?R s (snd (initialize dispatch env fuel s))"
    by (rule steps_relation(2)[where R = ?R, OF all])
  show "?R s (snd (reconfigureCallback dispatch env fuel config s))"
    by (rule steps_relation(3)[where R = ?R, OF all])
  show "?R s (snd (callAvailable dispatch env fuel configs s))"
    by (rule steps_relation(4)[where R = ?R, OF all])
qed

text \<open>
  When no received buffer makes the dispatch set server info, a data model without
  server info and a description without version hint stay so.
\<close>

lemma no_info_steps:
  assumes quiet: "\<forall>w dm. \<not> hasServerInfo dm \<longrightarrow> \<not> hasServerInfo (dispatch (received env w) dm)"
  shows "version (serverDescription (fst s)) = [] \<and> \<not> hasServerInfo (dataModel (fst s)) \<longrightarrow>
           \<not> hasServerInfo (dataModel (fst (snd (handshake dispatch env fuel s))))"
    and "version (serverDescription (fst s)) = [] \<and> \<not> hasServerInfo (dataModel (fst s)) \<longrightarrow>
           \<not> hasServerInfo (dataModel (fst (snd (initialize dispatch env fuel s))))"
    and "version (serverDescription (fst s)) = [] \<and> \<not> hasServerInfo (dataModel (fst s)) \<longrightarrow>
           \<not> hasServerInfo (dataModel (fst (snd (reconfigureCallback dispatch env fuel config s))))"
    and "version (serverDescription (fst s)) = [] \<and> \<not> hasServerInfo (dataModel (fst s)) \<longrightarrow>
           \<not> hasServerInfo (dataModel (fst (snd (callAvailable dispatch env fuel configs s))))"
proof -
  let ?I = "\<lambda>s::sys. version (serverDescription (fst s)) = [] \<and> \<not> hasServerInfo (dataModel (fst s))"
  let ?R = "\<lambda>(s::sys) (s'::sys). ?I s \<longrightarrow> ?I s'"
  have rfl: "\<And>s. ?R s s" by simp
  have trn: "\<And>s t u. ?R s t \<Longrightarrow> ?R t u \<Longrightarrow> ?R s u" by simp
  have ok: "\<And>b w. ?R (b, w) (b, snd (ros_ok env w))" by simp
  have step: "\<And>s. ?R s (snd (handshakeStep dispatch env s))"
  proof -
    fix s :: sys
    obtain b w where s: "s = (b, w)" by (cases s)
    show "?R s (snd (handshakeStep dispatch env s))"
    proof (cases "multicastClientSocketPtr b")
      case None
      then show ?thesis by (simp add: s handshakeStep_def)
    next
      case (Some sock)
      show ?thesis using quiet by (simp add: s handshakeStep_eq[OF Some])
    qed
  qed
  have spin: "\<And>b w. ?R (b, w) (b, spinOnce w)" by simp
  have pre: "\<And>b w. enableOptitrack (serverDescription b) \<Longrightarrow>
                ?R (b, w) (apfst applyVersionHint (resetSocket (b, w)))"
    by (simp add: resetSocket_eq applyVersionHint_def)
  have post: "\<And>s. ?R s (apfst (\<lambda>b. b\<lparr>initialized := True\<rparr>) (resetDispatcher s))"
    by (simp add: resetDispatcher_def split: prod.splits)
  have off: "\<And>b w. \<not> enableOptitrack (serverDescription b) \<Longrightarrow>
                ?R (b, w) (b\<lparr>initialized := False\<rparr>, w)"
    by simp
  have cfg: "\<And>config b w. ?R (b, w) (applyConfig config b, w)"
    by (simp add: applyConfig_def)
  note all = rfl trn ok step spin pre post off cfg
  have "?R s (snd (handshake dispatch env fuel s))"
    by (rule steps_relation(1)[where R = ?R, OF all])
  then show "?I s \<longrightarrow> \<not> hasServerInfo (dataModel (fst (snd (handshake dispatch env fuel s))))"
    by simp
  have "?R s (snd (initialize dispatch env fuel s))"
    by (rule steps_relation(2)[where R = ?R, OF all])
  then show "?I s \<longrightarrow> \<not> hasServerInfo (dataModel (fst (snd (initialize dispatch env fuel s))))"
    by simp
  have "?R s (snd (reconfigureCallback dispatch env fuel config s))"
    by (rule steps_relation(3)[where R = ?R, OF all])
  then show "?I s \<longrightarrow>
      \<not> hasServerInfo (dataModel (fst (snd (reconfigureCallback dispatch env fuel config s))))"
    by simp
  have "?R s (snd (callAvailable dispatch env fuel configs s))"
    by (rule steps_relation(4)[where R = ?R, OF all])
  then show "?I s \<longrightarrow>
      \<not> hasServerInfo (dataModel (fst (snd (callAvailable dispatch env fuel configs s))))"
    by simp
qed

text \<open>
  \<^verbatim>\<open>initialize\<close> sets the socket pointer before the handshake loop uses it, so no call
  of \<^verbatim>\<open>initialize\<close> or \<^verbatim>\<open>reconfigureCallback\<close> dereferences a null pointer.
\<close>

lemma no_null_deref_steps:
  shows "multicastClientSocketPtr (fst s) \<noteq> None \<longrightarrow> fst (handshake dispatch env fuel s) \<noteq> NullDeref"
    and "fst (initialize dispatch env fuel s) \<noteq> NullDeref"
    and "fst (reconfigureCallback dispatch env fuel config s) \<noteq> NullDeref"
    and "fst (callAvailable dispatch env fuel configs s) \<noteq> NullDeref"
proof (induction dispatch env fuel s and dispatch env fuel s and dispatch env fuel config s
         and dispatch env fuel configs s
       rule: handshake_initialize_reconfigureCallback_callAvailable.induct)
  case (1 dispatch env fuel b w)
  show ?case
  proof (cases "fst (ros_ok env w) \<and> \<not> hasServerInfo (dataModel b)")
    case False
    then show ?thesis by (simp add: handshake_stop)
  next
    case go: True
    show ?thesis
    proof (cases fuel)
      case 0
      then show ?thesis using go by (simp add: handshake_0)
    next
      case (Suc n)
      show ?thesis
      proof
        assume "multicastClientSocketPtr (fst (b, w)) \<noteq> None"
        then obtain sock where sock: "multicastClientSocketPtr b = Some sock" by auto
        obtain b1 w1 where hs: "handshakeStep dispatch env (b, snd (ros_ok env w)) =
            (Returns (), (b1, w1))" and s1: "multicastClientSocketPtr b1 = Some sock"
          using handshakeStep_eq[OF sock, of dispatch env "snd (ros_ok env w)"] sock by auto
        obtain xb yb where ca: "callAvailable dispatch env n (spinStream env (spinIdx w1))
            (b1, spinOnce w1) = (xb, yb)"
          by (metis prod.exhaust)
        have nn: "xb \<noteq> NullDeref"
          using "1.IH"(1)[OF go Suc hs[symmetric] refl refl] ca by simp
        have sy: "multicastClientSocketPtr (fst yb) \<noteq> None"
          using socket_steps(4)[of "(b1, spinOnce w1)" dispatch env n "spinStream env (spinIdx w1)"]
            s1 ca by simp
        show "fst (handshake dispatch env fuel (b, w)) \<noteq> NullDeref"
        proof (cases xb)
          case (Returns u)
          have "fst (handshake dispatch env n yb) \<noteq> NullDeref"
            using "1.IH"(2)[OF go Suc hs[symmetric] refl refl ca[symmetric] Returns] sy by simp
          then show ?thesis using go Suc hs ca Returns by (simp add: handshake_Suc)
        next
          case OutOfFuel
          then show ?thesis using go Suc hs ca by (simp add: handshake_Suc)
        next
          case NullDeref
          then show ?thesis using nn by simp
        qed
      qed
    qed
  qed
next
  case (2 dispatch env fuel b w)
  show ?case
  proof (cases "enableOptitrack (serverDescription b)")
    case False
    then show ?thesis by (simp add: initialize_disabled)
  next
    case True
    let ?s1 = "apfst applyVersionHint (resetSocket (b, w))"
    have "multicastClientSocketPtr (fst ?s1) \<noteq> None"
      by (simp add: resetSocket_eq applyVersionHint_def)
    then have "fst (handshake dispatch env fuel ?s1) \<noteq> NullDeref"
      using "2.IH"[OF True] by simp
    then show ?thesis using True
      by (cases "handshake dispatch env fuel ?s1"; cases "fst (handshake dispatch env fuel ?s1)")
        (simp_all add: initialize.simps)
  qed
next
  case (3 dispatch env fuel config b w)
  then show ?case by (simp add: reconfigureCallback.simps)
next
  case (4 dispatch env fuel s)
  then show ?case by simp
next
  case (5 dispatch env fuel config configs s)
  obtain x s1 where rc: "reconfigureCallback dispatch env fuel config s = (x, s1)"
    by (metis prod.exhaust)
  show ?case
  proof (cases x)
    case (Returns u)
    then show ?thesis using "5.IH"(2)[OF rc[symmetric] Returns] rc by simp
  next
    case OutOfFuel
    then show ?thesis using rc by simp
  next
    case NullDeref
    then show ?thesis using "5.IH"(1) rc by simp
  qed
qed

text \<open>
  Without server info, the handshake loop returns only on a \<^verbatim>\<open>ros::ok()\<close> that said no:
  the last answer read before it returns.
\<close>

lemma handshake_returns_on_shutdown:
  assumes quiet: "\<forall>w dm. \<not> hasServerInfo dm \<longrightarrow> \<not> hasServerInfo (dispatch (received env w) dm)"
    and "version (serverDescription b) = []" and "\<not> hasServerInfo (dataModel b)"
    and "multicastClientSocketPtr b \<noteq> None"
    and "fst (handshake dispatch env fuel (b, w)) = Returns ()"
  shows "0 < okIdx (snd (snd (handshake dispatch env fuel (b, w)))) \<and>
         \<not> okStream env (okIdx (snd (snd (handshake dispatch env fuel (b, w)))) - 1)"
  using assms(2-)
proof (induction fuel arbitrary: b w)
  case 0
  show ?case
  proof (cases "fst (ros_ok env w) \<and> \<not> hasServerInfo (dataModel b)")
    case True
    then show ?thesis using "0.prems"(4) by (simp add: handshake_0)
  next
    case False
    then show ?thesis using "0.prems"(2) by (simp add: handshake_stop ros_ok_def emit_def)
  qed
next
  case (Suc n)
  show ?case
  proof (cases "fst (ros_ok env w) \<and> \<not> hasServerInfo (dataModel b)")
    case False
    then show ?thesis using Suc.prems(2) by (simp add: handshake_stop ros_ok_def emit_def)
  next
    case go: True
    obtain sock where sock: "multicastClientSocketPtr b = Some sock"
      using Suc.prems(3) by auto
    let ?w0 = "snd (ros_ok env w)"
    obtain b1 w1 where hs: "handshakeStep dispatch env (b, ?w0) = (Returns (), (b1, w1))"
      and s1: "multicastClientSocketPtr b1 = Some sock"
      and v1: "version (serverDescription b1) = []"
      and i1: "\<not> hasServerInfo (dataModel b1)"
      using handshakeStep_eq[OF sock, of dispatch env ?w0] sock Suc.prems(1,2) quiet by auto
    obtain xb b2 w2 where ca: "callAvailable dispatch env n (spinStream env (spinIdx w1))
        (b1, spinOnce w1) = (xb, (b2, w2))"
      by (metis prod.exhaust)
    have v2: "version (serverDescription b2) = []"
      using version_steps(4)[of dispatch env n "spinStream env (spinIdx w1)" "(b1, spinOnce w1)"]
        ca v1 by simp
    have i2: "\<not> hasServerInfo (dataModel b2)"
      using no_info_steps(4)[OF quiet, of "(b1, spinOnce w1)" n "spinStream env (spinIdx w1)"]
        ca v1 i1 by simp
    have s2: "multicastClientSocketPtr b2 \<noteq> None"
      using socket_steps(4)[of "(b1, spinOnce w1)" dispatch env n "spinStream env (spinIdx w1)"]
        ca s1 by simp
    show ?thesis
    proof (cases xb)
      case (Returns u)
      have eq: "handshake dispatch env (Suc n) (b, w) = handshake dispatch env n (b2, w2)"
        using go hs ca Returns by (simp add: handshake_Suc)
      show ?thesis
        using Suc.IH[OF v2 i2 s2] Suc.prems(4) unfolding eq by simp
    qed (use go hs ca Suc.prems(4) in \<open>simp_all add: handshake_Suc\<close>)
  qed
qed

lemma initialize_interrupted:
  "initialize (decodeInto exampleDeserialize) interruptedEnv 2 (freshBridge, freshWorld) =
     (Returns (),
      (freshBridge
         \<lparr>multicastClientSocketPtr :=
            Some \<lparr>socketId = 0, localPort = 1510, multicastGroup = ''239.255.42.99''\<rparr>,
          publishDispatcherPtr := Some \<lparr>natNetVersion = None, configurations = []\<rparr>,
          initialized := True\<rparr>,
       \<lparr>okIdx = 3, recvIdx = 2, spinIdx = 2, nextSocketId = 1,
        trace =
          [SocketOpen 0 1510 ''239.255.42.99'',
           OkCheck True, Send 0 1511, Recv 0 0, Sleep 1000000, SpinOnce,
           OkCheck True, Send 0 1511, Recv 0 0, Sleep 1000000, SpinOnce,
           OkCheck False, DispatcherCreate None]\<rparr>))"
  by (simp add: numeral_2_eq_2 initialize.simps handshake.simps freshBridge_def freshWorld_def
      exampleDescription_def interruptedEnv_def resetSocket_def applyVersionHint_def
      ros_ok_def emit_def hasServerInfo_def handshakeStep_def updateDataModelFromServer_def
      spinOnce_def resetDispatcher_def getNatNetVersion_def)

lemma exampleDeserialize_quiet:
  assumes "\<forall>i. recvStream env i = (0, [])"
  shows "\<forall>w dm. \<not> hasServerInfo dm \<longrightarrow>
           \<not> hasServerInfo (decodeInto exampleDeserialize (received env w) dm)"
  using assms by (simp add: received_def decodeInto_def exampleDeserialize_def)

subsection \<open>End-to-end scenario A\<close>

text \<open>
  End-to-end scenario A. The server answers the first connection request with its
  server info: \<^verbatim>\<open>initialize\<close> returns after one iteration of the handshake loop.
\<close>

lemma streaming_reached:
  "initialize (decodeInto exampleDeserialize) answeringEnv 1 (freshBridge, freshWorld) =
     (Returns (), (streamingBridge, streamingWorld))"
  by (simp add: initialize.simps handshake.simps freshBridge_def freshWorld_def
      exampleDescription_def answeringEnv_def resetSocket_def applyVersionHint_def
      ros_ok_def emit_def hasServerInfo_def handshakeStep_def updateDataModelFromServer_def
      spinOnce_def resetDispatcher_def getNatNetVersion_def decodeInto_def
      exampleDeserialize_def setVersions_def streamingBridge_def streamingWorld_def)

text \<open>
  The data frame that follows is published once, with its two rigid bodies, and the
  model is cleared; the next poll yields nothing and publishes nothing; then shutdown.
\<close>

lemma scenario_A:
  "run (decodeInto exampleDeserialize) answeringEnv 2 (streamingBridge, streamingWorld) =
     (Returns (),
      (streamingBridge,
       streamingWorld
         \<lparr>okIdx := 5, recvIdx := 3, spinIdx := 3,
          trace := trace streamingWorld @
            [OkCheck True, Recv 0 5, Decode ''frame'',
             Publish [\<lparr>bodyId = 1, pose = []\<rparr>, \<lparr>bodyId = 2, pose = []\<rparr>], Sleep 100, SpinOnce,
             OkCheck True, Recv 0 0, Sleep 100, SpinOnce,
             OkCheck False]\<rparr>))"
  by (simp add: numeral_2_eq_2 run.simps runStep_def updateDataModelFromServer_def
      answeringEnv_def ros_ok_def emit_def spinOnce_def decodeInto_def exampleDeserialize_def
      clear_def streamingBridge_def streamingWorld_def)

subsection \<open>An iteration as events\<close>

lemma numBytes_emit [simp]:
  "numBytes env (emit e w) = numBytes env w"
  "received env (emit e w) = received env w"
  "numBytes env (w\<lparr>okIdx := k\<rparr>) = numBytes env w"
  "received env (w\<lparr>okIdx := k\<rparr>) = received env w"
  by (simp_all add: numBytes_def received_def emit_def)

text \<open>
  One executed iteration of the handshake loop, as events: the check of
  \<^verbatim>\<open>ros::ok()\<close>, the request, the receive, the decode and the short pause if bytes
  arrived and the long pause if not, then \<^verbatim>\<open>spinOnce\<close>; whatever comes after
  belongs to the callbacks and to the next iterations.
\<close>

lemma handshake_iteration_events:
  assumes "multicastClientSocketPtr b = Some sock"
    and "okStream env (okIdx w)" and "\<not> hasServerInfo (dataModel b)"
  shows "\<exists>rest. eventsSince w (snd (snd (handshake dispatch env (Suc n) (b, w)))) =
           OkCheck True # Send (socketId sock) (commandPort (serverDescription b)) #
           Recv (socketId sock) (numBytes env w) #
           (if 0 < numBytes env w then [Decode (received env w), Sleep 10] else [Sleep 1000000]) @
           SpinOnce # rest"
proof -
  let ?w0 = "snd (ros_ok env w)"
  let ?pre = "OkCheck True # Send (socketId sock) (commandPort (serverDescription b)) #
           Recv (socketId sock) (numBytes env w) #
           (if 0 < numBytes env w then [Decode (received env w), Sleep 10] else [Sleep 1000000]) @
           [SpinOnce]"
  have go: "fst (ros_ok env w) \<and> \<not> hasServerInfo (dataModel b)"
    using assms(2,3) by (simp add: ros_ok_def)
  have w0: "trace ?w0 = trace w @ [OkCheck True]" "numBytes env ?w0 = numBytes env w"
    "received env ?w0 = received env w"
    using assms(2) by (simp_all add: ros_ok_def emit_def numBytes_def received_def)
  obtain b1 w1 where hs: "handshakeStep dispatch env (b, ?w0) = (Returns (), (b1, w1))"
    by (simp add: handshakeStep_eq[OF assms(1)])
  have "trace w1 = trace ?w0 @ Send (socketId sock) (commandPort (serverDescription b)) #
           Recv (socketId sock) (numBytes env w) #
           (if 0 < numBytes env w then [Decode (received env w), Sleep 10] else [Sleep 1000000])"
    using hs unfolding handshakeStep_eq[OF assms(1)] w0(2,3) by auto
  then have t1: "trace (spinOnce w1) = trace w @ ?pre"
    by (simp add: w0(1) spinOnce_def emit_def)
  obtain xb yb where ca: "callAvailable dispatch env n (spinStream env (spinIdx w1))
      (b1, spinOnce w1) = (xb, yb)"
    by (metis prod.exhaust)
  obtain es where es: "trace (snd yb) = trace w @ ?pre @ es"
    using no_publish_steps(4)[of dispatch env n "spinStream env (spinIdx w1)" "(b1, spinOnce w1)"]
      ca t1 by auto
  have "\<exists>es'. trace (snd (snd (handshake dispatch env (Suc n) (b, w)))) = trace w @ ?pre @ es'"
  proof (cases xb)
    case (Returns u)
    obtain es2 where "trace (snd (snd (handshake dispatch env n yb))) = trace (snd yb) @ es2"
      using no_publish_steps(1)[of dispatch env n yb] by auto
    then have "trace (snd (snd (handshake dispatch env n yb))) = trace w @ ?pre @ (es @ es2)"
      using es by simp
    moreover have "handshake dispatch env (Suc n) (b, w) = handshake dispatch env n yb"
      using hs ca Returns by (simp add: handshake_Suc[OF go])
    ultimately show ?thesis by auto
  qed (use hs ca es in \<open>simp_all add: handshake_Suc[OF go]\<close>)
  then obtain es' where "trace (snd (snd (handshake dispatch env (Suc n) (b, w)))) =
      trace w @ ?pre @ es'" by blast
  then have "eventsSince w (snd (snd (handshake dispatch env (Suc n) (b, w)))) = ?pre @ es'"
    by (simp add: eventsSince_def)
  then show ?thesis by auto
qed

lemma runStep_trace:
  "\<exists>es. trace (snd (snd (runStep dispatch env s))) = trace (snd s) @ es"
proof (cases s)
  case (Pair b w)
  obtain x b1 w1 where u: "updateDataModelFromServer dispatch env (b, w) = (x, (b1, w1))"
    by (metis prod.exhaust)
  obtain es where es: "trace w1 = trace w @ es"
    using updateDataModelFromServer_trace[of dispatch env "(b, w)"] u by auto
  show ?thesis unfolding Pair using u es
    by (cases x) (auto simp add: runStep_def emit_def split: option.splits)
qed

lemma run_trace:
  "\<exists>es. trace (snd (snd (run dispatch env fuel s))) = trace (snd s) @ es"
proof -
  let ?R = "\<lambda>(s::sys) (s'::sys). \<exists>es. trace (snd s') = trace (snd s) @ es"
  have trn: "\<And>s t u. ?R s t \<Longrightarrow> ?R t u \<Longrightarrow> ?R s u" by auto
  have calls: "\<And>n configs s. ?R s (snd (callAvailable dispatch env n configs s))"
    using no_publish_steps(4) by blast
  show ?thesis
    by (rule run_relation[where R = ?R, OF _ trn _ runStep_trace _ calls])
      (simp_all add: ros_ok_def emit_def spinOnce_def)
qed

text \<open>One executed iteration of the streaming loop of an initialized bridge, as events.\<close>

lemma run_iteration_events:
  assumes "initialized b" and "multicastClientSocketPtr b = Some sock"
    and "publishDispatcherPtr b = Some d" and "okStream env (okIdx w)"
  shows "\<exists>rest. eventsSince w (snd (snd (run dispatch env (Suc n) (b, w)))) =
           OkCheck True # Recv (socketId sock) (numBytes env w) #
           (if 0 < numBytes env w then
              [Decode (received env w),
               Publish (rigidBodies (dispatch (received env w) (dataModel b))), Sleep 100]
            else [Sleep 100]) @
           SpinOnce # rest"
proof -
  let ?w0 = "snd (ros_ok env w)"
  let ?pre = "OkCheck True # Recv (socketId sock) (numBytes env w) #
           (if 0 < numBytes env w then
              [Decode (received env w),
               Publish (rigidBodies (dispatch (received env w) (dataModel b))), Sleep 100]
            else [Sleep 100]) @ [SpinOnce]"
  have go: "fst (ros_ok env w)" using assms(4) by (simp add: ros_ok_def)
  have w0: "trace ?w0 = trace w @ [OkCheck True]" "numBytes env ?w0 = numBytes env w"
    "received env ?w0 = received env w"
    using assms(4) by (simp_all add: ros_ok_def emit_def numBytes_def received_def)
  obtain b1 w1 where rs: "runStep dispatch env (b, ?w0) = (Returns (), (b1, w1))"
    by (simp add: runStep_eq[OF assms(1,2,3)])
  have "trace w1 = trace ?w0 @ Recv (socketId sock) (numBytes env w) #
           (if 0 < numBytes env w then
              [Decode (received env w),
               Publish (rigidBodies (dispatch (received env w) (dataModel b))), Sleep 100]
            else [Sleep 100])"
    using rs unfolding runStep_eq[OF assms(1,2,3)] w0(2,3) by auto
  then have t1: "trace (spinOnce w1) = trace w @ ?pre"
    by (simp add: w0(1) spinOnce_def emit_def)
  obtain xb yb where ca: "callAvailable dispatch env n (spinStream env (spinIdx w1))
      (b1, spinOnce w1) = (xb, yb)"
    by (metis prod.exhaust)
  obtain es where es: "trace (snd yb) = trace w @ ?pre @ es"
    using no_publish_steps(4)[of dispatch env n "spinStream env (spinIdx w1)" "(b1, spinOnce w1)"]
      ca t1 by auto
  have "\<exists>es'. trace (snd (snd (run dispatch env (Suc n) (b, w)))) = trace w @ ?pre @ es'"
  proof (cases xb)
    case (Returns u)
    obtain es2 where "trace (snd (snd (run dispatch env n yb))) = trace (snd yb) @ es2"
      using run_trace[of dispatch env n yb] by auto
    then have "trace (snd (snd (run dispatch env n yb))) = trace w @ ?pre @ (es @ es2)"
      using es by simp
    moreover have "run dispatch env (Suc n) (b, w) = run dispatch env n yb"
      using rs ca Returns by (simp add: run_Suc[OF go])
    ultimately show ?thesis by auto
  qed (use rs ca es in \<open>simp_all add: run_Suc[OF go]\<close>)
  then obtain es' where "trace (snd (snd (run dispatch env (Suc n) (b, w)))) =
      trace w @ ?pre @ es'" by blast
  then have "eventsSince w (snd (snd (run dispatch env (Suc n) (b, w)))) = ?pre @ es'"
    by (simp add: eventsSince_def)
  then show ?thesis by auto
qed

text \<open>Each loop, on every entry, reads \<^verbatim>\<open>ros::ok()\<close> before anything else.\<close>

lemma handshake_first_event:
  "\<exists>rest. eventsSince w (snd (snd (handshake dispatch env fuel (b, w)))) =
     OkCheck (okStream env (okIdx w)) # rest"
proof -
  let ?w0 = "snd (ros_ok env w)"
  have w0: "trace ?w0 = trace w @ [OkCheck (okStream env (okIdx w))]"
    by (simp add: ros_ok_def emit_def)
  have "\<exists>es. trace (snd (snd (handshake dispatch env fuel (b, w)))) = trace ?w0 @ es"
  proof (cases "fst (ros_ok env w) \<and> \<not> hasServerInfo (dataModel b)")
    case False
    then show ?thesis by (simp add: handshake_stop)
  next
    case go: True
    show ?thesis
    proof (cases fuel)
      case 0
      then show ?thesis by (simp add: handshake_0[OF go])
    next
      case (Suc n)
      obtain x b1 w1 where hs: "handshakeStep dispatch env (b, ?w0) = (x, (b1, w1))"
        by (metis prod.exhaust)
      obtain e1 where e1: "trace w1 = trace ?w0 @ e1"
        using handshakeStep_trace[of dispatch env "(b, ?w0)"] hs by auto
      obtain xb yb where ca: "callAvailable dispatch env n (spinStream env (spinIdx w1))
          (b1, spinOnce w1) = (xb, yb)"
        by (metis prod.exhaust)
      obtain e2 where e2: "trace (snd yb) = trace ?w0 @ e1 @ SpinOnce # e2"
        using no_publish_steps(4)[of dispatch env n "spinStream env (spinIdx w1)"
            "(b1, spinOnce w1)"] ca e1
        by (auto simp add: spinOnce_def emit_def)
      obtain e3 where e3: "trace (snd (snd (handshake dispatch env n yb))) =
          trace ?w0 @ e1 @ SpinOnce # e2 @ e3"
        using no_publish_steps(1)[of dispatch env n yb] e2 by auto
      show ?thesis
        unfolding Suc using hs ca e1 e2 e3
        by (cases x; cases xb) (simp_all add: handshake_Suc[OF go])
    qed
  qed
  then show ?thesis by (auto simp add: w0 eventsSince_def)
qed

lemma run_first_event:
  "\<exists>rest. eventsSince w (snd (snd (run dispatch env fuel (b, w)))) =
     OkCheck (okStream env (okIdx w)) # rest"
proof -
  let ?w0 = "snd (ros_ok env w)"
  have w0: "trace ?w0 = trace w @ [OkCheck (okStream env (okIdx w))]"
    by (simp add: ros_ok_def emit_def)
  have "\<exists>es. trace (snd (snd (run dispatch env fuel (b, w)))) = trace ?w0 @ es"
  proof (cases "fst (ros_ok env w)")
    case False
    then show ?thesis by (simp add: run_stop)
  next
    case go: True
    show ?thesis
    proof (cases fuel)
      case 0
      then show ?thesis by (simp add: run_0[OF go])
    next
      case (Suc n)
      obtain x b1 w1 where rs: "runStep dispatch env (b, ?w0) = (x, (b1, w1))"
        by (metis prod.exhaust)
      obtain e1 where e1: "trace w1 = trace ?w0 @ e1"
        using runStep_trace[of dispatch env "(b, ?w0)"] rs by auto
      obtain xb yb where ca: "callAvailable dispatch env n (spinStream env (spinIdx w1))
          (b1, spinOnce w1) = (xb, yb)"
        by (metis prod.exhaust)
      obtain e2 where e2: "trace (snd yb) = trace ?w0 @ e1 @ SpinOnce # e2"
        using no_publish_steps(4)[of dispatch env n "spinStream env (spinIdx w1)"
            "(b1, spinOnce w1)"] ca e1
        by (auto simp add: spinOnce_def emit_def)
      obtain e3 where e3: "trace (snd (snd (run dispatch env n yb))) =
          trace ?w0 @ e1 @ SpinOnce # e2 @ e3"
        using run_trace[of dispatch env n yb] e2 by auto
      show ?thesis
        unfolding Suc using rs ca e1 e2 e3
        by (cases x; cases xb) (simp_all add: run_Suc[OF go])
    qed
  qed
  then show ?thesis by (auto simp add: w0 eventsSince_def)
qed

lemma handshakingSys_eq:
  "handshakingSys =
     (freshBridge
        \<lparr>multicastClientSocketPtr :=
           Some \<lparr>socketId = 0, localPort = 1510, multicastGroup = ''239.255.42.99''\<rparr>\<rparr>,
      freshWorld\<lparr>nextSocketId := 1, trace := [SocketOpen 0 1510 ''239.255.42.99'']\<rparr>)"
  by (simp add: handshakingSys_def resetSocket_eq applyVersionHint_def)
    (simp add: freshBridge_def freshWorld_def exampleDescription_def)

text \<open>
  A server that sends four unrecognised bytes on every poll: after one iteration the
  handshake loop is still running.
\<close>

lemma initialize_junk:
  "initialize (decodeInto exampleDeserialize) junkEnv 1 (freshBridge, freshWorld) =
     (OutOfFuel,
      (freshBridge
         \<lparr>multicastClientSocketPtr :=
            Some \<lparr>socketId = 0, localPort = 1510, multicastGroup = ''239.255.42.99''\<rparr>\<rparr>,
       \<lparr>okIdx = 2, recvIdx = 1, spinIdx = 1, nextSocketId = 1,
        trace =
          [SocketOpen 0 1510 ''239.255.42.99'',
           OkCheck True, Send 0 1511, Recv 0 4, Decode ''junk'', Sleep 10, SpinOnce,
           OkCheck True]\<rparr>))"
  by (simp add: initialize.simps handshake.simps freshBridge_def freshWorld_def
      exampleDescription_def junkEnv_def resetSocket_def applyVersionHint_def
      ros_ok_def emit_def hasServerInfo_def handshakeStep_def updateDataModelFromServer_def
      spinOnce_def decodeInto_def exampleDeserialize_def)

section \<open>The claims\<close>

text \<open>
  C1. No data frame is decoded or dispatched before the server info is known; the
  dispatcher is constructed only after \<^verbatim>\<open>hasServerInfo()\<close> has become true. That
  \<^verbatim>\<open>initialize\<close> and \<^verbatim>\<open>reconfigureCallback\<close> never publish is lemma
  \<open>no_publish_steps\<close>. The construction of the dispatcher escapes the claim: when the
  server is silent and the shutdown signal arrives at the third evaluation of the loop
  condition, the handshake loop exits without server info, and \<^verbatim>\<open>initialize\<close> goes on
  to construct the dispatcher from a version the data model does not have, and to set
  \<^verbatim>\<open>initialized\<close>. The comment above that statement in the source reads "Once we have
  the server info, create publishers".
\<close>

theorem initialize_dispatcher_without_server_info:
  "initialize (decodeInto exampleDeserialize) interruptedEnv 2 (freshBridge, freshWorld) =
     (Returns (),
      (freshBridge
         \<lparr>multicastClientSocketPtr :=
            Some \<lparr>socketId = 0, localPort = 1510, multicastGroup = ''239.255.42.99''\<rparr>,
          publishDispatcherPtr := Some \<lparr>natNetVersion = None, configurations = []\<rparr>,
          initialized := True\<rparr>,
       \<lparr>okIdx = 3, recvIdx = 2, spinIdx = 2, nextSocketId = 1,
        trace =
          [SocketOpen 0 1510 ''239.255.42.99'',
           OkCheck True, Send 0 1511, Recv 0 0, Sleep 1000000, SpinOnce,
           OkCheck True, Send 0 1511, Recv 0 0, Sleep 1000000, SpinOnce,
           OkCheck False, DispatcherCreate None]\<rparr>)) \<and>
   \<not> hasServerInfo (dataModel (fst (snd
      (initialize (decodeInto exampleDeserialize) interruptedEnv 2 (freshBridge, freshWorld)))))"
  by (simp add: initialize_interrupted) (simp add: hasServerInfo_def freshBridge_def)

text \<open>
  C2, as stated, fails: a reconfiguration in the middle of streaming constructs the new
  socket (1) while the old one (0) is still open and destroys the old one afterwards; and
  the dispatcher of the new epoch is constructed from the old epoch's server info, so
  that the frame that arrives next is published through it.
\<close>

theorem reconfigure_socket_order_counterexample:
  "take 2 (eventsSince streamingWorld (snd movedSys)) =
     [SocketOpen 1 1512 ''239.255.42.100'', SocketClose 0] \<and>
   socketsOverlap [0] (eventsSince streamingWorld (snd movedSys)) \<and>
   map_option natNetVersion (publishDispatcherPtr (fst movedSys)) =
     Some (getNatNetVersion (dataModel streamingBridge)) \<and>
   eventsSince (snd movedSys) (snd (snd (runStep (decodeInto exampleDeserialize) frameEnv movedSys))) =
     [Recv 1 5, Decode ''frame'',
      Publish [\<lparr>bodyId = 1, pose = []\<rparr>, \<lparr>bodyId = 2, pose = []\<rparr>], Sleep 100]"
proof -
  have d: "exampleDeserialize ''frame'' =
      DataFrameEvent [\<lparr>bodyId = 1, pose = []\<rparr>, \<lparr>bodyId = 2, pose = []\<rparr>]"
    by (simp add: exampleDeserialize_def)
  have r: "\<And>w. received frameEnv w = ''frame''" "\<And>w. numBytes frameEnv w = 5"
    by (simp_all add: received_def numBytes_def frameEnv_def)
  show ?thesis
    by (simp add: movedSys_eq runStep_eq r d decodeInto_def)
      (simp add: streamingBridge_def getNatNetVersion_def)
qed

text \<open>
  C2, amended. When \<^verbatim>\<open>reconfigureCallback\<close> is given an enabling description while a
  socket is held, the new socket is constructed on the new port and group first and the
  old socket is destroyed right after, so for a moment both are open; whatever follows
  inside \<^verbatim>\<open>reconfigureCallback\<close>, and however it ends, contains no \<^verbatim>\<open>publish\<close>. The
  server info is not reset: if it is present and there is no version hint, the call
  returns with the dispatcher of the new epoch constructed from it.
\<close>

theorem reconfigure_socket_order:
  assumes "enable_optitrack config" and "multicastClientSocketPtr b = Some old"
  shows "(\<exists>rest. eventsSince w (snd (snd (reconfigureCallback dispatch env fuel config (b, w)))) =
            SocketOpen (nextSocketId w) (data_port config) (multicast_address config) #
            SocketClose (socketId old) # rest \<and> publishCount rest = 0) \<and>
         socketsOverlap [socketId old]
           (eventsSince w (snd (snd (reconfigureCallback dispatch env fuel config (b, w))))) \<and>
         (hasServerInfo (dataModel b) \<and> version (serverDescription b) = [] \<longrightarrow>
            fst (reconfigureCallback dispatch env fuel config (b, w)) = Returns () \<and>
            publishDispatcherPtr (fst (snd (reconfigureCallback dispatch env fuel config (b, w)))) =
              Some \<lparr>natNetVersion = getNatNetVersion (dataModel b),
                    configurations = publisherConfigurations b\<rparr> \<and>
            initialized (fst (snd (reconfigureCallback dispatch env fuel config (b, w)))))"
proof -
  have en: "enableOptitrack (serverDescription (applyConfig config b))"
    using assms(1) by (simp add: applyConfig_def)
  obtain es where es: "trace (snd (snd (initialize dispatch env fuel (applyConfig config b, w)))) =
      trace (snd (resetSocket (applyConfig config b, w))) @ es" "publishCount es = 0"
    using initialize_enabled_trace[OF en] by blast
  have ev: "eventsSince w (snd (snd (reconfigureCallback dispatch env fuel config (b, w)))) =
      SocketOpen (nextSocketId w) (data_port config) (multicast_address config) #
      SocketClose (socketId old) # es"
    using es(1) assms(2)
    by (simp add: reconfigureCallback.simps resetSocket_eq eventsSince_def applyConfig_def)
  have 1: "\<exists>rest. eventsSince w (snd (snd (reconfigureCallback dispatch env fuel config (b, w)))) =
            SocketOpen (nextSocketId w) (data_port config) (multicast_address config) #
            SocketClose (socketId old) # rest \<and> publishCount rest = 0"
    using ev es(2) by blast
  have 2: "socketsOverlap [socketId old]
           (eventsSince w (snd (snd (reconfigureCallback dispatch env fuel config (b, w)))))"
    by (simp add: ev)
  have 3: "hasServerInfo (dataModel b) \<and> version (serverDescription b) = [] \<Longrightarrow>
            fst (reconfigureCallback dispatch env fuel config (b, w)) = Returns () \<and>
            publishDispatcherPtr (fst (snd (reconfigureCallback dispatch env fuel config (b, w)))) =
              Some \<lparr>natNetVersion = getNatNetVersion (dataModel b),
                    configurations = publisherConfigurations b\<rparr> \<and>
            initialized (fst (snd (reconfigureCallback dispatch env fuel config (b, w))))"
    using reconfigureCallback_ready[OF assms(1), of b dispatch env fuel w] by simp
  show ?thesis using 1 2 3 by blast
qed

theorem reconfigure_socket_order_witness:
  "enable_optitrack movedConfig \<and>
   multicastClientSocketPtr streamingBridge =
     Some \<lparr>socketId = 0, localPort = 1510, multicastGroup = ''239.255.42.99''\<rparr> \<and>
   hasServerInfo (dataModel streamingBridge) \<and> version (serverDescription streamingBridge) = [] \<and>
   socketsOverlap [0] (eventsSince streamingWorld (snd movedSys)) \<and>
   initialized (fst movedSys)"
proof -
  have h: "enable_optitrack movedConfig"
    "multicastClientSocketPtr streamingBridge =
       Some \<lparr>socketId = 0, localPort = 1510, multicastGroup = ''239.255.42.99''\<rparr>"
    by (simp_all add: movedConfig_def streamingBridge_def)
  have g: "hasServerInfo (dataModel streamingBridge) \<and> version (serverDescription streamingBridge) = []"
    by (simp add: streamingBridge_def hasServerInfo_def exampleDescription_def)
  note t = reconfigure_socket_order[OF h, of streamingWorld "decodeInto exampleDeserialize"
      silentEnv 0, folded movedSys_def]
  note t3 = t[THEN conjunct2, THEN conjunct2, rule_format, OF g]
  show ?thesis
    using h g t[THEN conjunct2, THEN conjunct1] t3[THEN conjunct2, THEN conjunct2]
    by simp
qed

text \<open>
  C3, as stated, fails: in the middle of streaming, with server info [3,0,0,0] from the
  running epoch and no version hint, a reconfiguration to another port and group returns
  with the same server info in the data model, without anything having been sent,
  received or decoded: the server info is carried over, not re-established.
\<close>

theorem reconfigure_keeps_server_info_counterexample:
  "version (serverDescription streamingBridge) = [] \<and>
   fst (reconfigureCallback (decodeInto exampleDeserialize) silentEnv 0 movedConfig
          (streamingBridge, streamingWorld)) = Returns () \<and>
   serverInfo (dataModel (fst (snd
     (reconfigureCallback (decodeInto exampleDeserialize) silentEnv 0 movedConfig
        (streamingBridge, streamingWorld))))) =
     serverInfo (dataModel streamingBridge) \<and>
   serverInfo (dataModel streamingBridge) = Some ([3, 0, 0, 0], [3, 0, 0, 0]) \<and>
   eventsSince streamingWorld (snd (snd
     (reconfigureCallback (decodeInto exampleDeserialize) silentEnv 0 movedConfig
        (streamingBridge, streamingWorld)))) =
     [SocketOpen 1 1512 ''239.255.42.100'', SocketClose 0, OkCheck True,
      DispatcherCreate (Some [3, 0, 0, 0])]"
proof -
  have h: "enable_optitrack movedConfig" "hasServerInfo (dataModel streamingBridge)"
    "version (serverDescription streamingBridge) = []"
    by (simp_all add: movedConfig_def streamingBridge_def hasServerInfo_def exampleDescription_def)
  show ?thesis
    by (simp add: reconfigureCallback_ready[OF h] h(3) applyConfig_def)
      (simp add: streamingBridge_def streamingWorld_def silentEnv_def movedConfig_def
        getNatNetVersion_def)
qed

text \<open>
  C3, amended. \<^verbatim>\<open>reconfigureCallback\<close> discards no server info. With an enabling
  description, server info present and no version hint, it returns without an iteration
  of the handshake loop (nothing is sent or received), the data model is unchanged, and
  the dispatcher is replaced by one constructed from the version carried over. With an
  enabling description and a version hint the server info is set from the hint. With a
  disabling description only the description and the \<^verbatim>\<open>initialized\<close> flag change: data
  model, dispatcher and socket stay as they were.
\<close>

theorem reconfigure_keeps_server_info:
  "(enable_optitrack config \<and> hasServerInfo (dataModel b) \<and> version (serverDescription b) = [] \<longrightarrow>
      fst (reconfigureCallback dispatch env fuel config (b, w)) = Returns () \<and>
      dataModel (fst (snd (reconfigureCallback dispatch env fuel config (b, w)))) = dataModel b \<and>
      publishDispatcherPtr (fst (snd (reconfigureCallback dispatch env fuel config (b, w)))) =
        Some \<lparr>natNetVersion = getNatNetVersion (dataModel b),
              configurations = publisherConfigurations b\<rparr> \<and>
      eventsSince w (snd (snd (reconfigureCallback dispatch env fuel config (b, w)))) =
        SocketOpen (nextSocketId w) (data_port config) (multicast_address config) #
        (case multicastClientSocketPtr b of None \<Rightarrow> [] | Some old \<Rightarrow> [SocketClose (socketId old)]) @
        [OkCheck (okStream env (okIdx w)), DispatcherCreate (getNatNetVersion (dataModel b))]) \<and>
   (enable_optitrack config \<and> version (serverDescription b) \<noteq> [] \<longrightarrow>
      fst (reconfigureCallback dispatch env fuel config (b, w)) = Returns () \<and>
      serverInfo (dataModel (fst (snd (reconfigureCallback dispatch env fuel config (b, w))))) =
        Some (version (serverDescription b), version (serverDescription b))) \<and>
   (\<not> enable_optitrack config \<longrightarrow>
      reconfigureCallback dispatch env fuel config (b, w) =
        (Returns (), ((applyConfig config b)\<lparr>initialized := False\<rparr>, w)) \<and>
      dataModel (applyConfig config b) = dataModel b \<and>
      publishDispatcherPtr (applyConfig config b) = publishDispatcherPtr b \<and>
      multicastClientSocketPtr (applyConfig config b) = multicastClientSocketPtr b)"
proof (intro conjI impI)
  assume a: "enable_optitrack config \<and> hasServerInfo (dataModel b) \<and>
    version (serverDescription b) = []"
  note r = reconfigureCallback_ready[of config b dispatch env fuel w]
  show "fst (reconfigureCallback dispatch env fuel config (b, w)) = Returns ()"
    using a by (simp add: r)
  show "dataModel (fst (snd (reconfigureCallback dispatch env fuel config (b, w)))) = dataModel b"
    using a by (simp add: r) (simp add: applyConfig_def)
  show "publishDispatcherPtr (fst (snd (reconfigureCallback dispatch env fuel config (b, w)))) =
        Some \<lparr>natNetVersion = getNatNetVersion (dataModel b),
              configurations = publisherConfigurations b\<rparr>"
    using a by (simp add: r)
  show "eventsSince w (snd (snd (reconfigureCallback dispatch env fuel config (b, w)))) =
        SocketOpen (nextSocketId w) (data_port config) (multicast_address config) #
        (case multicastClientSocketPtr b of None \<Rightarrow> [] | Some old \<Rightarrow> [SocketClose (socketId old)]) @
        [OkCheck (okStream env (okIdx w)), DispatcherCreate (getNatNetVersion (dataModel b))]"
    using a by (simp add: r)
next
  assume a: "enable_optitrack config \<and> version (serverDescription b) \<noteq> []"
  note r = reconfigureCallback_hinted[of config b dispatch env fuel w]
  show "fst (reconfigureCallback dispatch env fuel config (b, w)) = Returns ()"
    using a r by simp
  show "serverInfo (dataModel (fst (snd (reconfigureCallback dispatch env fuel config (b, w))))) =
        Some (version (serverDescription b), version (serverDescription b))"
    using a r by simp
next
  assume a: "\<not> enable_optitrack config"
  show "reconfigureCallback dispatch env fuel config (b, w) =
        (Returns (), ((applyConfig config b)\<lparr>initialized := False\<rparr>, w))"
    by (rule reconfigureCallback_disabled[OF a])
qed (simp_all add: applyConfig_def)

theorem reconfigure_keeps_server_info_witness:
  "enable_optitrack movedConfig \<and> hasServerInfo (dataModel streamingBridge) \<and>
   version (serverDescription streamingBridge) = [] \<and>
   dataModel (fst (snd (reconfigureCallback (decodeInto exampleDeserialize) silentEnv 0 movedConfig
      (streamingBridge, streamingWorld)))) = dataModel streamingBridge \<and>
   version (serverDescription hintedBridge) \<noteq> [] \<and>
   serverInfo (dataModel (fst (snd (reconfigureCallback (decodeInto exampleDeserialize) silentEnv 0
      movedConfig (hintedBridge, freshWorld))))) = Some ([3, 0, 0, 0], [3, 0, 0, 0]) \<and>
   \<not> enable_optitrack offConfig \<and>
   reconfigureCallback (decodeInto exampleDeserialize) silentEnv 0 offConfig
      (streamingBridge, streamingWorld) =
     (Returns (), ((applyConfig offConfig streamingBridge)\<lparr>initialized := False\<rparr>, streamingWorld))"
proof -
  have h: "enable_optitrack movedConfig \<and> hasServerInfo (dataModel streamingBridge) \<and>
    version (serverDescription streamingBridge) = []"
    by (simp add: movedConfig_def streamingBridge_def hasServerInfo_def exampleDescription_def)
  have v: "version (serverDescription hintedBridge) = [3, 0, 0, 0]"
    by (simp add: hintedBridge_def exampleDescription_def)
  have g: "enable_optitrack movedConfig \<and> version (serverDescription hintedBridge) \<noteq> []"
    by (simp add: v movedConfig_def)
  have f: "\<not> enable_optitrack offConfig" by (simp add: offConfig_def)
  note t1 = reconfigure_keeps_server_info[of movedConfig streamingBridge
      "decodeInto exampleDeserialize" silentEnv 0 streamingWorld,
      THEN conjunct1, rule_format, OF h]
  note t2 = reconfigure_keeps_server_info[of movedConfig hintedBridge
      "decodeInto exampleDeserialize" silentEnv 0 freshWorld,
      THEN conjunct2, THEN conjunct1, rule_format, OF g]
  note t3 = reconfigure_keeps_server_info[of offConfig streamingBridge
      "decodeInto exampleDeserialize" silentEnv 0 streamingWorld,
      THEN conjunct2, THEN conjunct2, rule_format, OF f]
  show ?thesis
    using h g f t1[THEN conjunct2, THEN conjunct1] t2[THEN conjunct2] t3[THEN conjunct1]
    by (simp only: v simp_thms)
qed

text \<open>
  C4, as stated, fails: in an iteration of the streaming loop that receives four bytes
  which the codec does not recognise (so they are not decoded to a data frame),
  \<^verbatim>\<open>publish\<close> is called all the same, with the rigid bodies of the data model (none).
\<close>

theorem run_publish_counterexample:
  "\<not> isDataFrame (exampleDeserialize (received junkEnv streamingWorld)) \<and>
   eventsSince streamingWorld
     (snd (snd (runStep (decodeInto exampleDeserialize) junkEnv (streamingBridge, streamingWorld)))) =
     [Recv 0 4, Decode ''junk'', Publish [], Sleep 100] \<and>
   publishCount (eventsSince streamingWorld
     (snd (snd (runStep (decodeInto exampleDeserialize) junkEnv (streamingBridge, streamingWorld))))) = 1"
proof -
  have s: "initialized streamingBridge"
    "multicastClientSocketPtr streamingBridge =
       Some \<lparr>socketId = 0, localPort = 1510, multicastGroup = ''239.255.42.99''\<rparr>"
    "publishDispatcherPtr streamingBridge =
       Some \<lparr>natNetVersion = Some [3, 0, 0, 0], configurations = []\<rparr>"
    by (simp_all add: streamingBridge_def)
  have r: "received junkEnv streamingWorld = ''junk''" "numBytes junkEnv streamingWorld = 4"
    by (simp_all add: received_def numBytes_def junkEnv_def)
  have d: "exampleDeserialize ''junk'' = Unrecognized"
    by (simp add: exampleDeserialize_def)
  have m: "rigidBodies (dataModel streamingBridge) = []"
    by (simp add: streamingBridge_def)
  show ?thesis
    by (simp add: runStep_eq[OF s] r d m decodeInto_def)
qed

text \<open>
  C4, amended. In an iteration of the streaming loop of an initialized bridge,
  \<^verbatim>\<open>publish\<close> is called exactly once if the receive returned a positive number of bytes,
  whatever the codec made of them, and not at all otherwise; it is called with the rigid
  bodies the data model holds after the decode, also when there are none, and the model
  is cleared afterwards. The events of such an iteration are the check of
  \<^verbatim>\<open>ros::ok()\<close>, the receive, then decode, publish and pause, or the pause alone, then
  \<^verbatim>\<open>spinOnce\<close>. An iteration of a bridge that is not initialized only pauses, and the
  callbacks run by \<^verbatim>\<open>spinOnce\<close> at the end of an iteration publish nothing.
\<close>

theorem run_publish_iff_bytes:
  assumes "multicastClientSocketPtr b = Some sock" and "publishDispatcherPtr b = Some d"
  shows "(initialized b \<longrightarrow>
            fst (runStep dispatch env (b, w)) = Returns () \<and>
            eventsSince w (snd (snd (runStep dispatch env (b, w)))) =
              Recv (socketId sock) (numBytes env w) #
              (if 0 < numBytes env w then
                 [Decode (received env w),
                  Publish (rigidBodies (dispatch (received env w) (dataModel b))), Sleep 100]
               else [Sleep 100]) \<and>
            publishCount (eventsSince w (snd (snd (runStep dispatch env (b, w))))) =
              (if 0 < numBytes env w then 1 else 0) \<and>
            dataModel (fst (snd (runStep dispatch env (b, w)))) =
              (if 0 < numBytes env w then clear (dispatch (received env w) (dataModel b))
               else dataModel b) \<and>
            (okStream env (okIdx w) \<longrightarrow>
               (\<exists>rest. eventsSince w (snd (snd (run dispatch env (Suc n) (b, w)))) =
                  OkCheck True # Recv (socketId sock) (numBytes env w) #
                  (if 0 < numBytes env w then
                     [Decode (received env w),
                      Publish (rigidBodies (dispatch (received env w) (dataModel b))), Sleep 100]
                   else [Sleep 100]) @
                  SpinOnce # rest))) \<and>
         (\<not> initialized b \<longrightarrow>
            runStep dispatch env (b, w) = (Returns (), (b, emit (Sleep 1000000) w))) \<and>
         publishCount (eventsSince (snd s)
            (snd (snd (callAvailable dispatch env fuel configs s)))) = 0"
proof -
  have "initialized b \<Longrightarrow> okStream env (okIdx w) \<Longrightarrow>
      \<exists>rest. eventsSince w (snd (snd (run dispatch env (Suc n) (b, w)))) =
        OkCheck True # Recv (socketId sock) (numBytes env w) #
        (if 0 < numBytes env w then
           [Decode (received env w),
            Publish (rigidBodies (dispatch (received env w) (dataModel b))), Sleep 100]
         else [Sleep 100]) @
        SpinOnce # rest"
    by (rule run_iteration_events[OF _ assms])
  then show ?thesis
    by (simp add: runStep_eq[OF _ assms] runStep_idle callAvailable_publishCount)
qed

theorem run_publish_iff_bytes_witness:
  "multicastClientSocketPtr streamingBridge =
     Some \<lparr>socketId = 0, localPort = 1510, multicastGroup = ''239.255.42.99''\<rparr> \<and>
   publishDispatcherPtr streamingBridge =
     Some \<lparr>natNetVersion = Some [3, 0, 0, 0], configurations = []\<rparr> \<and>
   initialized streamingBridge \<and> okStream emptyFrameEnv (okIdx streamingWorld) \<and>
   eventsSince streamingWorld
     (snd (snd (runStep (decodeInto exampleDeserialize) emptyFrameEnv
                  (streamingBridge, streamingWorld)))) =
     [Recv 0 5, Decode ''empty'', Publish [], Sleep 100] \<and>
   (\<exists>rest. eventsSince streamingWorld
      (snd (snd (run (decodeInto exampleDeserialize) emptyFrameEnv (Suc 0)
                   (streamingBridge, streamingWorld)))) =
      OkCheck True # Recv 0 5 # Decode ''empty'' # Publish [] # Sleep 100 # SpinOnce # rest) \<and>
   eventsSince streamingWorld
     (snd (snd (runStep (decodeInto exampleDeserialize) silentEnv
                  (streamingBridge, streamingWorld)))) =
     [Recv 0 0, Sleep 100] \<and>
   \<not> initialized (streamingBridge\<lparr>initialized := False\<rparr>) \<and>
   runStep (decodeInto exampleDeserialize) silentEnv
     (streamingBridge\<lparr>initialized := False\<rparr>, streamingWorld) =
     (Returns (), (streamingBridge\<lparr>initialized := False\<rparr>, emit (Sleep 1000000) streamingWorld))"
proof -
  have s: "multicastClientSocketPtr streamingBridge =
       Some \<lparr>socketId = 0, localPort = 1510, multicastGroup = ''239.255.42.99''\<rparr>"
    "publishDispatcherPtr streamingBridge =
       Some \<lparr>natNetVersion = Some [3, 0, 0, 0], configurations = []\<rparr>"
    by (simp_all add: streamingBridge_def)
  have s2: "multicastClientSocketPtr (streamingBridge\<lparr>initialized := False\<rparr>) =
       Some \<lparr>socketId = 0, localPort = 1510, multicastGroup = ''239.255.42.99''\<rparr>"
    "publishDispatcherPtr (streamingBridge\<lparr>initialized := False\<rparr>) =
       Some \<lparr>natNetVersion = Some [3, 0, 0, 0], configurations = []\<rparr>"
    by (simp_all add: streamingBridge_def)
  have i: "initialized streamingBridge" "okStream emptyFrameEnv (okIdx streamingWorld)"
    by (simp_all add: streamingBridge_def emptyFrameEnv_def)
  have r: "received emptyFrameEnv streamingWorld = ''empty''"
    "numBytes emptyFrameEnv streamingWorld = 5"
    "numBytes silentEnv streamingWorld = 0"
    by (simp_all add: received_def numBytes_def emptyFrameEnv_def silentEnv_def streamingWorld_def)
  have d: "exampleDeserialize ''empty'' = DataFrameEvent []"
    by (simp add: exampleDeserialize_def)
  have m: "rigidBodies (dataModel streamingBridge) = []"
    by (simp add: streamingBridge_def)
  show ?thesis
    using run_publish_iff_bytes[OF s, of "decodeInto exampleDeserialize"
        emptyFrameEnv streamingWorld 0]
      run_publish_iff_bytes[OF s, of "decodeInto exampleDeserialize" silentEnv streamingWorld]
      run_publish_iff_bytes[of "streamingBridge\<lparr>initialized := False\<rparr>" _ _
        "decodeInto exampleDeserialize" silentEnv streamingWorld, OF s2]
    by (simp add: s i r d m decodeInto_def)
qed

text \<open>
  C5. When the description is enabled and its version hint is not empty, \<^verbatim>\<open>initialize\<close>
  writes the hint into the data model before the handshake loop, so the loop evaluates
  its condition once and runs its body zero times: apart from the socket being
  constructed on (dataPort, multicastIpAddress), and the socket held before being
  destroyed, the only events are the one \<^verbatim>\<open>ros::ok()\<close> check and the construction
  of the dispatcher; nothing is sent or received and \<^verbatim>\<open>spinOnce\<close> is not called. This
  holds for every fuel, every dispatch and every input.
\<close>

theorem initialize_version_hint_skips_handshake:
  assumes "enableOptitrack (serverDescription b)"
    and "version (serverDescription b) \<noteq> []"
  shows "fst (initialize dispatch env fuel (b, w)) = Returns () \<and>
         serverInfo (dataModel (fst (snd (initialize dispatch env fuel (b, w))))) =
           Some (version (serverDescription b), version (serverDescription b)) \<and>
         multicastClientSocketPtr (fst (snd (initialize dispatch env fuel (b, w)))) =
           Some \<lparr>socketId = nextSocketId w, localPort = dataPort (serverDescription b),
                 multicastGroup = multicastIpAddress (serverDescription b)\<rparr> \<and>
         eventsSince w (snd (snd (initialize dispatch env fuel (b, w)))) =
           SocketOpen (nextSocketId w) (dataPort (serverDescription b))
                      (multicastIpAddress (serverDescription b)) #
           (case multicastClientSocketPtr b of None \<Rightarrow> [] | Some old \<Rightarrow> [SocketClose (socketId old)]) @
           [OkCheck (okStream env (okIdx w)),
            DispatcherCreate (Some (version (serverDescription b)))] \<and>
         recvIdx (snd (snd (initialize dispatch env fuel (b, w)))) = recvIdx w \<and>
         spinIdx (snd (snd (initialize dispatch env fuel (b, w)))) = spinIdx w"
proof -
  have "hasServerInfo (dataModel (applyVersionHint b))"
    using assms(2) by (simp add: applyVersionHint_def hasServerInfo_def setVersions_def)
  from initialize_ready[OF assms(1) this, of dispatch env fuel w] show ?thesis
    using assms(2)
    by (simp add: applyVersionHint_def getNatNetVersion_def setVersions_def eventsSince_def)
qed

theorem initialize_version_hint_skips_handshake_witness:
  "enableOptitrack (serverDescription hintedBridge) \<and>
   version (serverDescription hintedBridge) \<noteq> [] \<and>
   fst (initialize (decodeInto exampleDeserialize) silentEnv 0 (hintedBridge, freshWorld)) = Returns () \<and>
   serverInfo (dataModel (fst (snd (initialize (decodeInto exampleDeserialize) silentEnv 0 (hintedBridge, freshWorld))))) =
     Some ([3, 0, 0, 0], [3, 0, 0, 0]) \<and>
   eventsSince freshWorld (snd (snd (initialize (decodeInto exampleDeserialize) silentEnv 0 (hintedBridge, freshWorld)))) =
     [SocketOpen 0 1510 ''239.255.42.99'', OkCheck True, DispatcherCreate (Some [3, 0, 0, 0])]"
proof -
  have h: "enableOptitrack (serverDescription hintedBridge)"
    "version (serverDescription hintedBridge) \<noteq> []"
    by (simp_all add: hintedBridge_def exampleDescription_def)
  show ?thesis
    using initialize_version_hint_skips_handshake[OF h, of "decodeInto exampleDeserialize" silentEnv 0 freshWorld] h
    by (simp add: hintedBridge_def freshBridge_def exampleDescription_def freshWorld_def silentEnv_def)
qed

text \<open>
  C6, as stated, fails: a disabling reconfiguration in the middle of streaming returns with
  the socket pointer still holding socket 0 and without any event, so the socket has not
  been closed.
\<close>

theorem reconfigure_disable_counterexample:
  "\<not> enable_optitrack offConfig \<and>
   fst (reconfigureCallback (decodeInto exampleDeserialize) silentEnv 0 offConfig
          (streamingBridge, streamingWorld)) = Returns () \<and>
   multicastClientSocketPtr (fst (snd
     (reconfigureCallback (decodeInto exampleDeserialize) silentEnv 0 offConfig
        (streamingBridge, streamingWorld)))) =
     Some \<lparr>socketId = 0, localPort = 1510, multicastGroup = ''239.255.42.99''\<rparr> \<and>
   eventsSince streamingWorld (snd (snd
     (reconfigureCallback (decodeInto exampleDeserialize) silentEnv 0 offConfig
        (streamingBridge, streamingWorld)))) = []"
proof -
  have f: "\<not> enable_optitrack offConfig" by (simp add: offConfig_def)
  show ?thesis
    by (simp add: reconfigureCallback_disabled[OF f] f eventsSince_def)
      (simp add: applyConfig_def streamingBridge_def)
qed

text \<open>
  C6, amended. A disabling reconfiguration returns at once with \<^verbatim>\<open>initialized\<close> false
  (the Disabled state), the description overwritten and nothing else changed: the socket
  stays as it was, bound and open. From then on \<^verbatim>\<open>run\<close> publishes nothing and polls
  the socket no more, for any number of iterations, as long as no enabling reconfiguration
  is delivered.
\<close>

theorem reconfigure_disable_stops_publishing:
  assumes "\<not> enable_optitrack config"
    and "\<forall>i \<ge> spinIdx w. \<forall>c \<in> set (spinStream env i). \<not> enable_optitrack c"
  shows "reconfigureCallback dispatch env fuel config (b, w) =
           (Returns (), ((applyConfig config b)\<lparr>initialized := False\<rparr>, w)) \<and>
         multicastClientSocketPtr ((applyConfig config b)\<lparr>initialized := False\<rparr>) =
           multicastClientSocketPtr b \<and>
         publishCount (eventsSince w (snd (snd
           (run dispatch env fuel' ((applyConfig config b)\<lparr>initialized := False\<rparr>, w))))) = 0 \<and>
         recvIdx (snd (snd
           (run dispatch env fuel' ((applyConfig config b)\<lparr>initialized := False\<rparr>, w)))) = recvIdx w"
proof -
  have "\<not> initialized ((applyConfig config b)\<lparr>initialized := False\<rparr>)" by simp
  from run_disabled[OF this assms(2), of dispatch fuel']
  obtain es where "trace (snd (snd
      (run dispatch env fuel' ((applyConfig config b)\<lparr>initialized := False\<rparr>, w)))) = trace w @ es"
    "publishCount es = 0"
    "recvIdx (snd (snd
      (run dispatch env fuel' ((applyConfig config b)\<lparr>initialized := False\<rparr>, w)))) = recvIdx w"
    by blast
  then show ?thesis
    by (simp add: reconfigureCallback_disabled[OF assms(1)] applyConfig_def)
qed

theorem reconfigure_disable_stops_publishing_witness:
  "\<not> enable_optitrack offConfig \<and>
   (\<forall>i. spinStream frameEnv i = []) \<and>
   reconfigureCallback (decodeInto exampleDeserialize) frameEnv 0 offConfig
     (streamingBridge, streamingWorld) =
     (Returns (), ((applyConfig offConfig streamingBridge)\<lparr>initialized := False\<rparr>, streamingWorld)) \<and>
   publishCount (eventsSince streamingWorld (snd (snd
     (run (decodeInto exampleDeserialize) frameEnv 5
        ((applyConfig offConfig streamingBridge)\<lparr>initialized := False\<rparr>, streamingWorld))))) = 0"
proof -
  have f: "\<not> enable_optitrack offConfig" by (simp add: offConfig_def)
  have e: "\<forall>i. spinStream frameEnv i = []" by (simp add: frameEnv_def)
  have q: "\<forall>i \<ge> spinIdx streamingWorld. \<forall>c \<in> set (spinStream frameEnv i). \<not> enable_optitrack c"
    by (simp add: e)
  note t = reconfigure_disable_stops_publishing[OF f q, of "decodeInto exampleDeserialize" 0
      streamingBridge 5]
  show ?thesis
    using f e t[THEN conjunct1] t[THEN conjunct2, THEN conjunct2, THEN conjunct1]
    by (simp only: simp_thms)
qed

text \<open>
  C7. Take an enabled description without version hint, a data model without server info,
  and inputs in which no received buffer makes the dispatch set server info. Then
  \<^verbatim>\<open>initialize\<close> never dereferences a null pointer; if it returns, the last answer of
  \<^verbatim>\<open>ros::ok()\<close> it read was false; and if \<^verbatim>\<open>ros::ok()\<close> always answers true it is still
  in the handshake loop whatever the fuel. Both loops read \<^verbatim>\<open>ros::ok()\<close> first on every
  entry, from any state: the first event of the handshake loop and of the streaming loop
  is the check, and when its answer is false the loop returns at once with nothing else
  done.
\<close>

theorem handshake_exits_only_on_shutdown:
  assumes "\<forall>w dm. \<not> hasServerInfo dm \<longrightarrow> \<not> hasServerInfo (dispatch (received env w) dm)"
    and "enableOptitrack (serverDescription b)"
    and "version (serverDescription b) = []"
    and "\<not> hasServerInfo (dataModel b)"
  shows "fst (initialize dispatch env fuel (b, w)) \<noteq> NullDeref \<and>
         (fst (initialize dispatch env fuel (b, w)) = Returns () \<longrightarrow>
            0 < okIdx (snd (snd (initialize dispatch env fuel (b, w)))) \<and>
            \<not> okStream env (okIdx (snd (snd (initialize dispatch env fuel (b, w)))) - 1)) \<and>
         ((\<forall>i. okStream env i) \<longrightarrow> fst (initialize dispatch env fuel (b, w)) = OutOfFuel) \<and>
         (\<exists>rest. eventsSince w' (snd (snd (handshake dispatch env fuel (b', w')))) =
            OkCheck (okStream env (okIdx w')) # rest) \<and>
         (\<exists>rest. eventsSince w' (snd (snd (run dispatch env fuel (b', w')))) =
            OkCheck (okStream env (okIdx w')) # rest) \<and>
         (\<not> okStream env (okIdx w') \<longrightarrow>
            handshake dispatch env fuel (b', w') = (Returns (), (b', snd (ros_ok env w'))) \<and>
            run dispatch env fuel (b', w') = (Returns (), (b', snd (ros_ok env w'))) \<and>
            eventsSince w' (snd (ros_ok env w')) = [OkCheck False])"
proof -
  let ?b1 = "applyVersionHint (fst (resetSocket (b, w)))"
  let ?w1 = "snd (resetSocket (b, w))"
  have s1: "apfst applyVersionHint (resetSocket (b, w)) = (?b1, ?w1)"
    by (simp add: apfst_def map_prod_def split: prod.splits)
  have b1: "version (serverDescription ?b1) = []" "\<not> hasServerInfo (dataModel ?b1)"
    "multicastClientSocketPtr ?b1 \<noteq> None"
    using assms(3,4) by (simp_all add: resetSocket_eq applyVersionHint_def)
  obtain x b2 w2 where h: "handshake dispatch env fuel (?b1, ?w1) = (x, (b2, w2))"
    by (metis prod.exhaust)
  have nn: "fst (initialize dispatch env fuel (b, w)) \<noteq> NullDeref"
    by (rule no_null_deref_steps(2))
  have ret: "fst (initialize dispatch env fuel (b, w)) = Returns () \<Longrightarrow>
      0 < okIdx (snd (snd (initialize dispatch env fuel (b, w)))) \<and>
      \<not> okStream env (okIdx (snd (snd (initialize dispatch env fuel (b, w)))) - 1)"
  proof -
    assume r: "fst (initialize dispatch env fuel (b, w)) = Returns ()"
    have x: "x = Returns ()"
      using r assms(2) h s1 by (cases x) (simp_all add: initialize.simps)
    have "0 < okIdx w2 \<and> \<not> okStream env (okIdx w2 - 1)"
      using handshake_returns_on_shutdown[OF assms(1) b1, of fuel ?w1] h x by simp
    moreover have "okIdx (snd (snd (initialize dispatch env fuel (b, w)))) = okIdx w2"
      using assms(2) h s1 x by (simp add: initialize.simps resetDispatcher_def emit_def)
    ultimately show ?thesis by simp
  qed
  have forever: "\<forall>i. okStream env i \<Longrightarrow> fst (initialize dispatch env fuel (b, w)) = OutOfFuel"
    using nn ret by (cases "fst (initialize dispatch env fuel (b, w))") auto
  have top: "\<not> okStream env (okIdx w') \<Longrightarrow>
      handshake dispatch env fuel (b', w') = (Returns (), (b', snd (ros_ok env w'))) \<and>
      run dispatch env fuel (b', w') = (Returns (), (b', snd (ros_ok env w'))) \<and>
      eventsSince w' (snd (ros_ok env w')) = [OkCheck False]"
    by (simp add: handshake_stop run_stop ros_ok_def emit_def eventsSince_def)
  show ?thesis
    using nn ret forever top handshake_first_event[of w' dispatch env fuel b']
      run_first_event[of w' dispatch env fuel b']
    by blast
qed

theorem handshake_exits_only_on_shutdown_witness:
  "(\<forall>i. recvStream silentEnv i = (0, [])) \<and> (\<forall>i. recvStream interruptedEnv i = (0, [])) \<and>
   enableOptitrack (serverDescription freshBridge) \<and>
   version (serverDescription freshBridge) = [] \<and>
   \<not> hasServerInfo (dataModel freshBridge) \<and>
   (\<forall>i. okStream silentEnv i) \<and>
   fst (initialize (decodeInto exampleDeserialize) silentEnv 7 (freshBridge, freshWorld)) = OutOfFuel \<and>
   fst (initialize (decodeInto exampleDeserialize) interruptedEnv 2 (freshBridge, freshWorld)) =
     Returns () \<and>
   \<not> okStream interruptedEnv
     (okIdx (snd (snd (initialize (decodeInto exampleDeserialize) interruptedEnv 2
                         (freshBridge, freshWorld)))) - 1) \<and>
   \<not> okStream interruptedEnv (okIdx (freshWorld\<lparr>okIdx := 2\<rparr>)) \<and>
   run (decodeInto exampleDeserialize) interruptedEnv 7 (streamingBridge, freshWorld\<lparr>okIdx := 2\<rparr>) =
     (Returns (), (streamingBridge, snd (ros_ok interruptedEnv (freshWorld\<lparr>okIdx := 2\<rparr>))))"
proof -
  have r: "\<forall>i. recvStream silentEnv i = (0, [])" "\<forall>i. recvStream interruptedEnv i = (0, [])"
    by (simp_all add: silentEnv_def interruptedEnv_def)
  have f: "enableOptitrack (serverDescription freshBridge)"
    "version (serverDescription freshBridge) = []"
    "\<not> hasServerInfo (dataModel freshBridge)"
    by (simp_all add: freshBridge_def exampleDescription_def hasServerInfo_def)
  have a: "\<forall>i. okStream silentEnv i" by (simp add: silentEnv_def)
  have z: "\<not> okStream interruptedEnv (okIdx (freshWorld\<lparr>okIdx := 2\<rparr>))"
    by (simp add: interruptedEnv_def)
  note t1 = handshake_exits_only_on_shutdown[OF exampleDeserialize_quiet[OF r(1)] f,
      of 7 freshWorld]
  note t2 = handshake_exits_only_on_shutdown[OF exampleDeserialize_quiet[OF r(2)] f,
      of 2 freshWorld "freshWorld\<lparr>okIdx := 2\<rparr>" streamingBridge]
  note t3 = handshake_exits_only_on_shutdown[OF exampleDeserialize_quiet[OF r(2)] f,
      of 7 freshWorld "freshWorld\<lparr>okIdx := 2\<rparr>" streamingBridge]
  have i: "fst (initialize (decodeInto exampleDeserialize) interruptedEnv 2 (freshBridge, freshWorld)) =
     Returns ()"
    by (simp add: initialize_interrupted)
  note u1 = t1[THEN conjunct2, THEN conjunct2, THEN conjunct1, THEN mp, OF a]
  note u2 = t2[THEN conjunct2, THEN conjunct1, rule_format, OF i, THEN conjunct2]
  note u3 = t3[THEN conjunct2, THEN conjunct2, THEN conjunct2, THEN conjunct2, THEN conjunct2,
      rule_format, OF z, THEN conjunct2, THEN conjunct1]
  show ?thesis
    using r f a z i u1 u2 u3 by (simp only: simp_thms)
qed

text \<open>
  C8, as stated, fails: a server that sends four bytes on every poll; in the one
  iteration of the handshake loop that the fuel allows, the pause requested after the
  receive is \<^verbatim>\<open>usleep(10)\<close>, 10 microseconds, not 10 milliseconds.
\<close>

theorem handshake_pause_counterexample:
  "trace (snd (snd (initialize (decodeInto exampleDeserialize) junkEnv 1 (freshBridge, freshWorld)))) =
     [SocketOpen 0 1510 ''239.255.42.99'',
      OkCheck True, Send 0 1511, Recv 0 4, Decode ''junk'', Sleep 10, SpinOnce, OkCheck True] \<and>
   pauses (trace (snd (snd
     (initialize (decodeInto exampleDeserialize) junkEnv 1 (freshBridge, freshWorld))))) = [10] \<and>
   pauses (trace (snd (snd
     (initialize (decodeInto exampleDeserialize) junkEnv 1 (freshBridge, freshWorld))))) \<noteq> [msec 10]"
  unfolding initialize_junk by (simp add: msec_def)

text \<open>
  C8, amended. In every iteration of the handshake loop (the socket pointer being set),
  after a receive that yields bytes the loop requests a pause of 10 microseconds, and
  after a receive that yields nothing a pause of one second, and no other pause: the
  events of an executed iteration are the check of \<^verbatim>\<open>ros::ok()\<close>, the request, the
  receive, then the decode and the 10 microseconds or the second alone, then
  \<^verbatim>\<open>spinOnce\<close>.
\<close>

theorem handshake_pause:
  assumes "multicastClientSocketPtr b = Some sock"
  shows "fst (handshakeStep dispatch env (b, w)) = Returns () \<and>
         pauses (eventsSince w (snd (snd (handshakeStep dispatch env (b, w))))) =
           [if 0 < numBytes env w then 10 else 1000000] \<and>
         (okStream env (okIdx w) \<and> \<not> hasServerInfo (dataModel b) \<longrightarrow>
            (\<exists>rest. eventsSince w (snd (snd (handshake dispatch env (Suc n) (b, w)))) =
               OkCheck True # Send (socketId sock) (commandPort (serverDescription b)) #
               Recv (socketId sock) (numBytes env w) #
               (if 0 < numBytes env w then [Decode (received env w), Sleep 10]
                else [Sleep 1000000]) @
               SpinOnce # rest))"
  using handshake_iteration_events[OF assms, of env w dispatch n]
  by (simp add: handshakeStep_eq[OF assms])

theorem handshake_pause_witness:
  "multicastClientSocketPtr (fst handshakingSys) =
     Some \<lparr>socketId = 0, localPort = 1510, multicastGroup = ''239.255.42.99''\<rparr> \<and>
   okStream junkEnv (okIdx (snd handshakingSys)) \<and>
   \<not> hasServerInfo (dataModel (fst handshakingSys)) \<and>
   pauses (eventsSince (snd handshakingSys)
     (snd (snd (handshakeStep (decodeInto exampleDeserialize) junkEnv handshakingSys)))) = [10] \<and>
   pauses (eventsSince (snd handshakingSys)
     (snd (snd (handshakeStep (decodeInto exampleDeserialize) silentEnv handshakingSys)))) =
     [1000000] \<and>
   (\<exists>rest. eventsSince (snd handshakingSys)
      (snd (snd (handshake (decodeInto exampleDeserialize) junkEnv (Suc 0) handshakingSys))) =
      OkCheck True # Send 0 1511 # Recv 0 4 # Decode ''junk'' # Sleep 10 # SpinOnce # rest)"
proof -
  have s: "multicastClientSocketPtr (fst handshakingSys) =
     Some \<lparr>socketId = 0, localPort = 1510, multicastGroup = ''239.255.42.99''\<rparr>"
    by (simp add: handshakingSys_eq)
  have g: "okStream junkEnv (okIdx (snd handshakingSys)) \<and>
      \<not> hasServerInfo (dataModel (fst handshakingSys))"
    by (simp add: handshakingSys_eq junkEnv_def freshBridge_def hasServerInfo_def)
  have r: "numBytes junkEnv (snd handshakingSys) = 4" "numBytes silentEnv (snd handshakingSys) = 0"
    "received junkEnv (snd handshakingSys) = ''junk''"
    "commandPort (serverDescription (fst handshakingSys)) = 1511"
    by (simp_all add: numBytes_def received_def junkEnv_def silentEnv_def handshakingSys_eq
        freshBridge_def exampleDescription_def)
  note t1 = handshake_pause[OF s, of "decodeInto exampleDeserialize" junkEnv "snd handshakingSys" 0]
  note t2 = handshake_pause[OF s, of "decodeInto exampleDeserialize" silentEnv "snd handshakingSys" 0]
  note u1 = t1[THEN conjunct2, THEN conjunct1]
  note u2 = t2[THEN conjunct2, THEN conjunct1]
  note u3 = t1[THEN conjunct2, THEN conjunct2, rule_format, OF g]
  show ?thesis
    using s g u1 u2 u3 by (simp add: r)
qed

text \<open>
  C9. On a bridge whose socket pointer is set, \<^verbatim>\<open>updateDataModelFromServer\<close> returns
  true exactly when \<^verbatim>\<open>recv()\<close> returned a positive number of bytes, whatever the
  dispatch does to the data model. When it returns false the bridge, and so the data model,
  is unchanged and the only event is the receive: nothing is decoded. When it returns true
  the received bytes were handed to the dispatch once.
\<close>

theorem updateDataModelFromServer_true_iff_bytes:
  assumes "multicastClientSocketPtr b = Some sock"
  shows "fst (updateDataModelFromServer dispatch env (b, w)) = Returns (0 < numBytes env w) \<and>
         (fst (updateDataModelFromServer dispatch env (b, w)) = Returns False \<longrightarrow>
            fst (snd (updateDataModelFromServer dispatch env (b, w))) = b \<and>
            eventsSince w (snd (snd (updateDataModelFromServer dispatch env (b, w)))) =
              [Recv (socketId sock) (numBytes env w)]) \<and>
         (fst (updateDataModelFromServer dispatch env (b, w)) = Returns True \<longrightarrow>
            fst (snd (updateDataModelFromServer dispatch env (b, w))) =
              b\<lparr>dataModel := dispatch (received env w) (dataModel b)\<rparr> \<and>
            eventsSince w (snd (snd (updateDataModelFromServer dispatch env (b, w)))) =
              [Recv (socketId sock) (numBytes env w), Decode (received env w)])"
  by (simp add: updateDataModelFromServer_eq[OF assms])

theorem updateDataModelFromServer_true_iff_bytes_witness:
  "multicastClientSocketPtr streamingBridge =
     Some \<lparr>socketId = 0, localPort = 1510, multicastGroup = ''239.255.42.99''\<rparr> \<and>
   fst (updateDataModelFromServer (\<lambda>buf dm. dm) junkEnv (streamingBridge, streamingWorld)) =
     Returns True \<and>
   fst (snd (updateDataModelFromServer (\<lambda>buf dm. dm) junkEnv (streamingBridge, streamingWorld))) =
     streamingBridge \<and>
   fst (updateDataModelFromServer (\<lambda>buf dm. dm) silentEnv (streamingBridge, streamingWorld)) =
     Returns False \<and>
   fst (snd (updateDataModelFromServer (\<lambda>buf dm. dm) silentEnv (streamingBridge, streamingWorld))) =
     streamingBridge \<and>
   eventsSince streamingWorld
     (snd (snd (updateDataModelFromServer (\<lambda>buf dm. dm) silentEnv (streamingBridge, streamingWorld)))) =
     [Recv 0 0]"
proof -
  have s: "multicastClientSocketPtr streamingBridge =
     Some \<lparr>socketId = 0, localPort = 1510, multicastGroup = ''239.255.42.99''\<rparr>"
    by (simp add: streamingBridge_def)
  have r: "numBytes junkEnv streamingWorld = 4" "numBytes silentEnv streamingWorld = 0"
    by (simp_all add: numBytes_def junkEnv_def silentEnv_def)
  show ?thesis
    using updateDataModelFromServer_true_iff_bytes[OF s, of "\<lambda>buf dm. dm" junkEnv streamingWorld]
      updateDataModelFromServer_true_iff_bytes[OF s, of "\<lambda>buf dm. dm" silentEnv streamingWorld]
    by (simp add: s r)
qed

text \<open>
  C10. \<^verbatim>\<open>reconfigureCallback\<close> overwrites the enable flag, the command port, the data
  port and the multicast address of the stored description and leaves its version as it
  was; the version is the same after \<^verbatim>\<open>reconfigureCallback\<close>, after any sequence of
  reconfigurations and after \<^verbatim>\<open>run\<close>, however each of them ends. With a non-empty
  version hint every reconfiguration returns without a handshake iteration, and an enabling
  one leaves the hint as the data model's server info.
\<close>

theorem reconfigureCallback_keeps_version:
  "applyConfig config b =
     b\<lparr>serverDescription :=
         \<lparr>enableOptitrack = enable_optitrack config, commandPort = command_port config,
          dataPort = data_port config, multicastIpAddress = multicast_address config,
          version = version (serverDescription b)\<rparr>\<rparr> \<and>
   version (serverDescription (fst (snd (reconfigureCallback dispatch env fuel config (b, w))))) =
     version (serverDescription b) \<and>
   version (serverDescription (fst (snd (callAvailable dispatch env fuel configs (b, w))))) =
     version (serverDescription b) \<and>
   version (serverDescription (fst (snd (run dispatch env fuel (b, w))))) =
     version (serverDescription b) \<and>
   (version (serverDescription b) \<noteq> [] \<longrightarrow>
      fst (callAvailable dispatch env fuel configs (b, w)) = Returns () \<and>
      ((\<exists>c \<in> set configs. enable_optitrack c) \<longrightarrow>
         serverInfo (dataModel (fst (snd (callAvailable dispatch env fuel configs (b, w))))) =
           Some (version (serverDescription b), version (serverDescription b))))"
proof -
  have "applyConfig config b =
     b\<lparr>serverDescription :=
         \<lparr>enableOptitrack = enable_optitrack config, commandPort = command_port config,
          dataPort = data_port config, multicastIpAddress = multicast_address config,
          version = version (serverDescription b)\<rparr>\<rparr>"
    by (simp add: applyConfig_def)
  moreover have "version (serverDescription b) \<noteq> [] \<Longrightarrow>
      fst (callAvailable dispatch env fuel configs (b, w)) = Returns () \<and>
      ((\<exists>c \<in> set configs. enable_optitrack c) \<longrightarrow>
         serverInfo (dataModel (fst (snd (callAvailable dispatch env fuel configs (b, w))))) =
           Some (version (serverDescription b), version (serverDescription b)))"
    using callAvailable_hinted[of b dispatch env fuel configs w] by (auto split: if_splits)
  ultimately show ?thesis
    using version_steps(3)[of dispatch env fuel config "(b, w)"]
      version_steps(4)[of dispatch env fuel configs "(b, w)"]
      version_run[of dispatch env fuel "(b, w)"]
    by simp
qed

theorem reconfigureCallback_keeps_version_witness:
  "version (serverDescription hintedBridge) \<noteq> [] \<and>
   (\<exists>c \<in> set [offConfig, movedConfig]. enable_optitrack c) \<and>
   fst (callAvailable (decodeInto exampleDeserialize) silentEnv 0 [offConfig, movedConfig]
          (hintedBridge, freshWorld)) = Returns () \<and>
   serverInfo (dataModel (fst (snd
     (callAvailable (decodeInto exampleDeserialize) silentEnv 0 [offConfig, movedConfig]
        (hintedBridge, freshWorld))))) = Some ([3, 0, 0, 0], [3, 0, 0, 0]) \<and>
   version (serverDescription (fst (snd
     (callAvailable (decodeInto exampleDeserialize) silentEnv 0 [offConfig, movedConfig]
        (hintedBridge, freshWorld))))) = [3, 0, 0, 0]"
proof -
  have v: "version (serverDescription hintedBridge) = [3, 0, 0, 0]"
    by (simp add: hintedBridge_def exampleDescription_def)
  have e: "\<exists>c \<in> set [offConfig, movedConfig]. enable_optitrack c"
    by (simp add: movedConfig_def)
  note t = reconfigureCallback_keeps_version[of offConfig hintedBridge
      "decodeInto exampleDeserialize" silentEnv 0 freshWorld "[offConfig, movedConfig]"]
  have n: "version (serverDescription hintedBridge) \<noteq> []" by (simp add: v)
  note k = t[THEN conjunct2, THEN conjunct2, THEN conjunct1]
  note r = t[THEN conjunct2, THEN conjunct2, THEN conjunct2, THEN conjunct2, rule_format, OF n]
  note i = r[THEN conjunct2, rule_format, OF e]
  show ?thesis using n e k r[THEN conjunct1] i by (simp only: v simp_thms)
qed

end
